theory Spec2Isabelle
  imports Complex_Main
begin

section \<open>Errors, requests and responses\<close>

text \<open>
  The handlers of \<^verbatim>\<open>src/assets/server/farm_server.go\<close> are methods of
  \<^verbatim>\<open>FarmServer\<close>. Each one reads an \<^verbatim>\<open>echo.Context\<close>, calls the domain
  package and the injected repositories, and returns either \<^verbatim>\<open>Error(c, err)\<close>
  or a response (\<^verbatim>\<open>c.JSON\<close>, \<^verbatim>\<open>c.File\<close>).

  The four kinds of \<^verbatim>\<open>RequestValidationError\<close> the handlers build with
  \<^verbatim>\<open>NewRequestValidationError(kind, field)\<close>:
\<close>

datatype error_code = REQUIRED | INVALID_OPTION | PARSE_FAILED | NOT_FOUND

text \<open>
  Go's \<^verbatim>\<open>error\<close> values. \<^verbatim>\<open>HTTPError status message\<close> is
  \<^verbatim>\<open>echo.NewHTTPError(status, message)\<close>; \<^verbatim>\<open>OtherError\<close> stands for any error
  value made outside the handlers (by the repositories, the domain package or the standard
  library), identified by its message.
\<close>

datatype error =
    RequestValidationError error_code string
  | HTTPError nat string
  | OtherError string

definition StatusOK :: nat where
  "StatusOK = 200"

definition StatusInternalServerError :: nat where
  "StatusInternalServerError = 500"

definition StatusBadRequest :: nat where
  "StatusBadRequest = 400"

type_synonym UUID = string
type_synonym Time = int
type_synonym float64 = rat
type_synonym float32 = rat

text \<open>
  The request: \<^verbatim>\<open>c.Param(name)\<close> and \<^verbatim>\<open>c.FormValue(name)\<close> return the empty
  string for a name the request does not carry; \<^verbatim>\<open>c.FormFile(name)\<close> returns a file
  header (\<^verbatim>\<open>multipart.FileHeader\<close>: the file name, the MIME header as a map from a
  key to its values, the size) or an error.
\<close>

record FileHeader =
  FileHeader_Filename :: string
  FileHeader_Header :: "(string \<times> string list) list"
  FileHeader_Size :: int

record Context =
  Param :: "string \<Rightarrow> string"
  FormValue :: "string \<Rightarrow> string"
  FormFile :: "string \<Rightarrow> error + FileHeader"

section \<open>Domain data\<close>

text \<open>
  Modelled from the spec: the aggregates of package \<^verbatim>\<open>domain\<close> are declared
  outside the two source files at hand. Their fields follow section 3 of the specification
  and the field names the handlers and \<^verbatim>\<open>material_events.go\<close> use. A child keeps a
  back-reference to its farm (the handlers read \<^verbatim>\<open>reservoir.Farm.UID\<close> and
  \<^verbatim>\<open>area.Farm.UID\<close>), the farm keeps the mirrors of its children.
\<close>

record Note =
  Note_UID :: UUID
  Content :: string
  Note_CreatedDate :: Time

record Bucket =
  Capacity :: float32
  Volume :: float32

datatype WaterSource = NoWaterSource | BucketSource Bucket | TapSource

record Reservoir =
  Reservoir_UID :: UUID
  Reservoir_Name :: string
  Reservoir_Farm_UID :: UUID
  Reservoir_WaterSource :: WaterSource
  Reservoir_Notes :: "Note list"

record AreaPhoto =
  Filename :: string
  MimeType :: string
  Size :: int
  Width :: int
  Height :: int

record Area =
  Area_UID :: UUID
  Area_Name :: string
  Area_Type :: string
  Area_Farm_UID :: UUID
  Area_Reservoir_UID :: UUID
  Area_Size :: "float32 \<times> string"
  Area_Location :: string
  Photo :: AreaPhoto
  Area_Notes :: "Note list"

record Farm =
  Farm_UID :: UUID
  Farm_Name :: string
  Farm_Type :: string
  Latitude :: string
  Longitude :: string
  CountryCode :: string
  CityCode :: string
  Reservoirs :: "Reservoir list"
  Areas :: "Area list"

record PlantType =
  PlantType_Code :: string

record ChemicalType =
  ChemicalType_Code :: string

record ContainerType =
  ContainerType_Code :: string

text \<open>The zero values \<^verbatim>\<open>domain.PlantType{}\<close>, \<^verbatim>\<open>domain.ChemicalType{}\<close> and
  \<^verbatim>\<open>domain.ContainerType{}\<close> the handler compares a lookup result with.\<close>

definition PlantType_zero :: PlantType where
  "PlantType_zero = \<lparr>PlantType_Code = ''''\<rparr>"

definition ChemicalType_zero :: ChemicalType where
  "ChemicalType_zero = \<lparr>ChemicalType_Code = ''''\<rparr>"

definition ContainerType_zero :: ContainerType where
  "ContainerType_zero = \<lparr>ContainerType_Code = ''''\<rparr>"

text \<open>
  The \<^verbatim>\<open>domain.MaterialType\<close> interface and the seven types the handler assigns to it.
  A variable of the interface type that was never assigned is \<^verbatim>\<open>nil\<close>: the model uses
  \<open>MaterialType option\<close> with \<open>None\<close> for \<^verbatim>\<open>nil\<close>.
\<close>

datatype MaterialType =
    MaterialTypeSeed string
  | MaterialTypeAgrochemical string
  | MaterialTypeGrowingMedium
  | MaterialTypeLabelAndCropSupport
  | MaterialTypeSeedingContainer string
  | MaterialTypePostHarvestSupply
  | MaterialTypeOther

record PricePerUnit =
  Amount :: string
  CurrencyCode :: string

record MaterialQuantity =
  Quantity_Value :: float32
  Quantity_Unit :: string

record Material =
  UID :: UUID
  Name :: string
  PricePerUnit :: PricePerUnit
  Type :: "MaterialType option"
  Quantity :: MaterialQuantity
  ExpirationDate :: "Time option"
  Notes :: "string option"
  ProducedBy :: "string option"
  IsExpense :: "bool option"

text \<open>
  The view structs the handlers answer with (\<^verbatim>\<open>DetailReservoir\<close>,
  \<^verbatim>\<open>DetailArea\<close>, the material view) are declared in the server package outside
  the files at hand; a view is kept as the aggregate it was mapped from.
\<close>

datatype DetailReservoir = DetailReservoir Reservoir
datatype DetailArea = DetailArea Area
datatype MaterialView = MaterialView Material

section \<open>Collaborators of the handlers\<close>

text \<open>
  \<^verbatim>\<open>RepositoryResult\<close>: what a \<^verbatim>\<open>FindByID\<close> delivers on its channel. The
  \<^verbatim>\<open>Result\<close> field is an \<^verbatim>\<open>interface{}\<close>; the handlers read it with a type
  assertion (\<^verbatim>\<open>result.Result.(domain.Farm)\<close>), which fails on any other dynamic type.
\<close>

datatype dynamic =
    NilValue
  | FarmValue Farm
  | ReservoirValue Reservoir
  | AreaValue Area

record RepositoryResult =
  Result :: dynamic
  Error :: "error option"

text \<open>
  \<^verbatim>\<open>FarmServer\<close>: the injected dependencies. A repository method returns a channel
  the handler receives from exactly once, so a method is a function to the value received
  (\<open>None\<close> is a \<^verbatim>\<open>nil\<close> error). Every call is also written to the handler's
  trace (see \<open>effect\<close>), which is where persistence shows.
\<close>

record FarmServer =
  FarmRepo_FindByID :: "string \<Rightarrow> RepositoryResult"
  FarmRepo_Save :: "Farm \<Rightarrow> error option"
  ReservoirRepo_FindByID :: "string \<Rightarrow> RepositoryResult"
  ReservoirRepo_Save :: "Reservoir \<Rightarrow> error option"
  AreaRepo_FindByID :: "string \<Rightarrow> RepositoryResult"
  AreaRepo_Save :: "Area \<Rightarrow> error option"
  MaterialRepo_Save :: "Material \<Rightarrow> error option"
  File_Upload :: "FileHeader \<Rightarrow> string \<Rightarrow> error option"

text \<open>
  Package \<^verbatim>\<open>domain\<close> is not among the source files; the handlers are verified for
  every behaviour of its functions, which are therefore parameters. A method with a pointer
  receiver returns the receiver after the call. Where a handler drops a method's error
  (\<^verbatim>\<open>farm.ChangeReservoirInformation(reservoir)\<close> in the add-note handlers) the method
  returns both the error and the receiver.
\<close>

record Domain =
  PlantTypes :: "PlantType list"
  ChemicalTypes :: "ChemicalType list"
  ContainerTypes :: "ContainerType list"
  CreateMaterialTypeSeed :: "string \<Rightarrow> error + MaterialType"
  CreateMaterialTypeAgrochemical :: "string \<Rightarrow> error + MaterialType"
  CreateMaterialTypeSeedingContainer :: "string \<Rightarrow> error + MaterialType"
  CreateMaterial ::
    "string \<Rightarrow> string \<Rightarrow> string \<Rightarrow> MaterialType option \<Rightarrow> float32 \<Rightarrow> string
      \<Rightarrow> error + Material"
  CreateFarm :: "string \<Rightarrow> string \<Rightarrow> error + Farm"
  ChangeGeoLocation :: "Farm \<Rightarrow> string \<Rightarrow> string \<Rightarrow> error + Farm"
  ChangeRegion :: "Farm \<Rightarrow> string \<Rightarrow> string \<Rightarrow> error + Farm"

record DomainNotes =
  Reservoir_AddNewNote :: "Reservoir \<Rightarrow> string \<Rightarrow> Reservoir"
  Reservoir_RemoveNote :: "Reservoir \<Rightarrow> string \<Rightarrow> error + Reservoir"
  ChangeReservoirInformation :: "Farm \<Rightarrow> Reservoir \<Rightarrow> error option \<times> Farm"
  Area_AddNewNote :: "Area \<Rightarrow> string \<Rightarrow> Area"
  Area_RemoveNote :: "Area \<Rightarrow> string \<Rightarrow> error + Area"
  ChangeAreaInformation :: "Farm \<Rightarrow> Area \<Rightarrow> error option \<times> Farm"

type_synonym AreaSize = "float32 \<times> string"

record DomainAssets =
  CreateReservoir :: "Farm \<Rightarrow> string \<Rightarrow> error + Reservoir"
  CreateBucket :: "float32 \<Rightarrow> float32 \<Rightarrow> error + Bucket"
  AttachBucket :: "Reservoir \<Rightarrow> Bucket \<Rightarrow> Reservoir"
  CreateTap :: "error + unit"
  AttachTap :: "Reservoir \<Rightarrow> Reservoir"
  AddReservoir :: "Farm \<Rightarrow> Reservoir \<Rightarrow> error + Farm \<times> Reservoir"
  CreateArea :: "Farm \<Rightarrow> string \<Rightarrow> string \<Rightarrow> error + Area"
  ChangeSize :: "Area \<Rightarrow> AreaSize \<Rightarrow> error + Area"
  ChangeLocation :: "Area \<Rightarrow> string \<Rightarrow> error + Area"
  AddArea :: "Farm \<Rightarrow> Area \<Rightarrow> error + Farm \<times> Area"

text \<open>
  The methods of \<^verbatim>\<open>RequestValidation\<close>, declared in the server package outside the
  files at hand. \<^verbatim>\<open>ValidateFarm\<close> and \<^verbatim>\<open>ValidateReservoir\<close> are given the
  server, whose repositories they read.
\<close>

record Validation =
  ValidateReservoirName :: "string \<Rightarrow> error + string"
  ValidateType :: "string \<Rightarrow> error + string"
  ValidateCapacity :: "string \<Rightarrow> string \<Rightarrow> error + float32"
  ValidateFarm :: "FarmServer \<Rightarrow> string \<Rightarrow> error + Farm"
  ValidateReservoir :: "FarmServer \<Rightarrow> string \<Rightarrow> error + Reservoir"
  ValidateAreaSize :: "string \<Rightarrow> string \<Rightarrow> error + AreaSize"
  ValidateAreaLocation :: "string \<Rightarrow> error + string"

text \<open>
  The standard library, the helper packages, the configuration and the view mappers:
  \<^verbatim>\<open>strconv.ParseFloat(s, 32)\<close>, the conversion \<^verbatim>\<open>float32(q)\<close>,
  \<^verbatim>\<open>time.Parse(layout, s)\<close>, \<^verbatim>\<open>stringhelper.Join\<close>,
  \<^verbatim>\<open>*config.Config.UploadPathArea\<close>, \<^verbatim>\<open>imagehelper.GetImageDimension\<close>,
  \<^verbatim>\<open>MapToDetailReservoir\<close>, \<^verbatim>\<open>MapToDetailArea\<close> and \<^verbatim>\<open>MapToMaterial\<close>.
\<close>

record Helpers =
  strconv_ParseFloat :: "string \<Rightarrow> error + float64"
  to_float32 :: "float64 \<Rightarrow> float32"
  time_Parse :: "string \<Rightarrow> string \<Rightarrow> error + Time"
  stringhelper_Join :: "string list \<Rightarrow> string"
  UploadPathArea :: string
  GetImageDimension :: "string \<Rightarrow> error + int \<times> int"
  MapToDetailReservoir :: "Reservoir \<Rightarrow> error + DetailReservoir"
  MapToDetailArea :: "Area \<Rightarrow> error + DetailArea"
  MapToMaterial :: "Material \<Rightarrow> MaterialView"

section \<open>Handlers as traced computations\<close>

text \<open>
  What a handler returns: \<open>ErrorResponse err\<close> is \<^verbatim>\<open>Error(c, err)\<close> (the helper
  \<^verbatim>\<open>Error\<close> is outside the files at hand, so the response keeps the error value it
  is given), \<open>JSON status data\<close> is \<^verbatim>\<open>c.JSON(status, data)\<close> with
  \<^verbatim>\<open>data["data"]\<close> set, \<open>FileResponse path\<close> is \<^verbatim>\<open>c.File(path)\<close>, and
  \<open>Panic\<close> is a run-time panic that leaves the handler (an index out of range).
\<close>

datatype data =
    FarmData Farm
  | DetailReservoirData DetailReservoir
  | DetailAreaData DetailArea
  | MaterialData MaterialView

datatype response =
    JSON nat data
  | ErrorResponse error
  | FileResponse string
  | Panic string

text \<open>
  The calls a handler makes to the repositories and to the constructors and mutators of
  the domain package, in the order it makes them, each with the arguments it passes.
\<close>

datatype effect =
    Call_FarmRepo_FindByID string
  | Call_FarmRepo_Save Farm
  | Call_ReservoirRepo_FindByID string
  | Call_ReservoirRepo_Save Reservoir
  | Call_AreaRepo_FindByID string
  | Call_AreaRepo_Save Area
  | Call_MaterialRepo_Save Material
  | Call_Reservoir_AddNewNote Reservoir string
  | Call_Reservoir_RemoveNote Reservoir string
  | Call_ChangeReservoirInformation Farm Reservoir
  | Call_Area_AddNewNote Area string
  | Call_Area_RemoveNote Area string
  | Call_ChangeAreaInformation Farm Area
  | Call_CreateMaterialTypeSeed string
  | Call_CreateMaterialTypeAgrochemical string
  | Call_CreateMaterialTypeSeedingContainer string
  | Call_CreateMaterial string string string "MaterialType option" float32 string
  | Call_CreateFarm string string
  | Call_ChangeGeoLocation Farm string string
  | Call_ChangeRegion Farm string string
  | Call_CreateReservoir Farm string
  | Call_CreateBucket float32 float32
  | Call_AttachBucket Reservoir Bucket
  | Call_CreateTap
  | Call_AttachTap Reservoir
  | Call_AddReservoir Farm Reservoir
  | Call_CreateArea Farm string string
  | Call_ChangeSize Area AreaSize
  | Call_ChangeLocation Area string
  | Call_AddArea Farm Area
  | Call_File_Upload FileHeader string

text \<open>
  A step of a handler either returns from the handler with a response (\<open>Inl\<close>) or
  goes on with a value (\<open>Inr\<close>); it also yields the calls it made.
\<close>

type_synonym 'a step = "(response + 'a) \<times> effect list"

definition proceed :: "'a \<Rightarrow> 'a step" where
  "proceed x = (Inr x, [])"

definition respond :: "response \<Rightarrow> 'a step" where
  "respond r = (Inl r, [])"

definition call :: "effect \<Rightarrow> 'a \<Rightarrow> 'a step" where
  "call e x = (Inr x, [e])"

definition andThen :: "'a step \<Rightarrow> ('a \<Rightarrow> 'b step) \<Rightarrow> 'b step" where
  "andThen m f =
     (case m of
        (Inl r, t) \<Rightarrow> (Inl r, t)
      | (Inr x, t) \<Rightarrow> (case f x of (y, t') \<Rightarrow> (y, t @ t')))"

definition handler :: "response step \<Rightarrow> response \<times> effect list" where
  "handler m = (case m of (Inl r, t) \<Rightarrow> (r, t) | (Inr r, t) \<Rightarrow> (r, t))"

section \<open>SaveMaterial\<close>

text \<open>
  Modelled from the spec: the category codes of package \<^verbatim>\<open>domain\<close>. Section 4.5
  of the specification names the seven categories \<^verbatim>\<open>seed\<close>, \<^verbatim>\<open>agrochemical\<close>,
  \<^verbatim>\<open>growing_medium\<close>, \<^verbatim>\<open>label_and_crop_support\<close>, \<^verbatim>\<open>seeding_container\<close>,
  \<^verbatim>\<open>post_harvest_supply\<close> and \<^verbatim>\<open>other\<close>; the handler compares the request's
  \<^verbatim>\<open>:type\<close> with \<^verbatim>\<open>strings.ToLower\<close> of each constant.
\<close>

definition MaterialTypeSeedCode :: string where
  "MaterialTypeSeedCode = ''SEED''"

definition MaterialTypeAgrochemicalCode :: string where
  "MaterialTypeAgrochemicalCode = ''AGROCHEMICAL''"

definition MaterialTypeGrowingMediumCode :: string where
  "MaterialTypeGrowingMediumCode = ''GROWING_MEDIUM''"

definition MaterialTypeLabelAndCropSupportCode :: string where
  "MaterialTypeLabelAndCropSupportCode = ''LABEL_AND_CROP_SUPPORT''"

definition MaterialTypeSeedingContainerCode :: string where
  "MaterialTypeSeedingContainerCode = ''SEEDING_CONTAINER''"

definition MaterialTypePostHarvestSupplyCode :: string where
  "MaterialTypePostHarvestSupplyCode = ''POST_HARVEST_SUPPLY''"

definition MaterialTypeOtherCode :: string where
  "MaterialTypeOtherCode = ''OTHER''"

text \<open>\<^verbatim>\<open>strings.ToLower\<close> on the ASCII letters, which is all the constants hold.\<close>

definition lower_char :: "char \<Rightarrow> char" where
  "lower_char ch =
     (if (65::nat) \<le> of_char ch \<and> of_char ch \<le> (90::nat)
      then char_of (of_char ch + (32::nat)) else ch)"

definition strings_ToLower :: "string \<Rightarrow> string" where
  "strings_ToLower s = map lower_char s"

text \<open>
  Modelled from the spec: \<^verbatim>\<open>domain.GetPlantType\<close>, \<^verbatim>\<open>GetChemicalType\<close> and
  \<^verbatim>\<open>GetContainerType\<close> (section 6: a lookup table exposes \<^verbatim>\<open>get(code)\<close>). The
  handler tests the result against the zero value of the struct, so a lookup that finds no
  entry with the code returns that zero value.
\<close>

definition GetPlantType :: "Domain \<Rightarrow> string \<Rightarrow> PlantType" where
  "GetPlantType d code =
     (case find (\<lambda>v. PlantType_Code v = code) (PlantTypes d) of
        Some v \<Rightarrow> v
      | None \<Rightarrow> PlantType_zero)"

definition GetChemicalType :: "Domain \<Rightarrow> string \<Rightarrow> ChemicalType" where
  "GetChemicalType d code =
     (case find (\<lambda>v. ChemicalType_Code v = code) (ChemicalTypes d) of
        Some v \<Rightarrow> v
      | None \<Rightarrow> ChemicalType_zero)"

definition GetContainerType :: "Domain \<Rightarrow> string \<Rightarrow> ContainerType" where
  "GetContainerType d code =
     (case find (\<lambda>v. ContainerType_Code v = code) (ContainerTypes d) of
        Some v \<Rightarrow> v
      | None \<Rightarrow> ContainerType_zero)"

text \<open>
  The \<^verbatim>\<open>switch materialTypeParam\<close> of the handler (lines 777 to 817). The cases are
  tried in the order of the source; the switch has no \<^verbatim>\<open>default\<close>, so a parameter
  that matches no case leaves \<^verbatim>\<open>mt\<close> at \<^verbatim>\<open>nil\<close> and the handler goes on.
\<close>

definition resolveMaterialType ::
  "Domain \<Rightarrow> string \<Rightarrow> string \<Rightarrow> string \<Rightarrow> string \<Rightarrow> MaterialType option step" where
  "resolveMaterialType d materialTypeParam plantType chemicalType containerType =
     (if materialTypeParam = strings_ToLower MaterialTypeSeedCode then
        (let pt = GetPlantType d plantType in
         if pt = PlantType_zero then
           respond (ErrorResponse (RequestValidationError INVALID_OPTION ''plant_type''))
         else
           andThen (call (Call_CreateMaterialTypeSeed (PlantType_Code pt))
                      (CreateMaterialTypeSeed d (PlantType_Code pt)))
             (\<lambda>r. case r of
                Inl err \<Rightarrow> respond (ErrorResponse (RequestValidationError INVALID_OPTION ''type''))
              | Inr t \<Rightarrow> proceed (Some t)))
      else if materialTypeParam = strings_ToLower MaterialTypeAgrochemicalCode then
        (let ct = GetChemicalType d chemicalType in
         if ct = ChemicalType_zero then
           respond (ErrorResponse (RequestValidationError INVALID_OPTION ''chemical_type''))
         else
           andThen (call (Call_CreateMaterialTypeAgrochemical (ChemicalType_Code ct))
                      (CreateMaterialTypeAgrochemical d (ChemicalType_Code ct)))
             (\<lambda>r. case r of
                Inl err \<Rightarrow> respond (ErrorResponse (RequestValidationError INVALID_OPTION ''type''))
              | Inr t \<Rightarrow> proceed (Some t)))
      else if materialTypeParam = strings_ToLower MaterialTypeGrowingMediumCode then
        proceed (Some MaterialTypeGrowingMedium)
      else if materialTypeParam = strings_ToLower MaterialTypeLabelAndCropSupportCode then
        proceed (Some MaterialTypeLabelAndCropSupport)
      else if materialTypeParam = strings_ToLower MaterialTypeSeedingContainerCode then
        (let ct = GetContainerType d containerType in
         if ct = ContainerType_zero then
           respond (ErrorResponse (RequestValidationError INVALID_OPTION ''container_type''))
         else
           andThen (call (Call_CreateMaterialTypeSeedingContainer (ContainerType_Code ct))
                      (CreateMaterialTypeSeedingContainer d (ContainerType_Code ct)))
             (\<lambda>r. case r of
                Inl err \<Rightarrow> respond (ErrorResponse (RequestValidationError INVALID_OPTION ''type''))
              | Inr t \<Rightarrow> proceed (Some t)))
      else if materialTypeParam = strings_ToLower MaterialTypePostHarvestSupplyCode then
        proceed (Some MaterialTypePostHarvestSupply)
      else if materialTypeParam = strings_ToLower MaterialTypeOtherCode then
        proceed (Some MaterialTypeOther)
      else proceed None)"

text \<open>
  The validation block of the handler (lines 744 to 774): the quantity, then the
  expiration date, then the three optional values that need no parsing. It delivers
  \<^verbatim>\<open>q\<close>, \<^verbatim>\<open>expDate\<close>, \<^verbatim>\<open>n\<close>, \<^verbatim>\<open>pb\<close> and \<^verbatim>\<open>isExpenseBool\<close>.
\<close>

definition validateMaterialInput ::
  "Helpers \<Rightarrow> string \<Rightarrow> string \<Rightarrow> string \<Rightarrow> string \<Rightarrow> string
    \<Rightarrow> (float64 \<times> Time option \<times> string option \<times> string option \<times> bool option) step" where
  "validateMaterialInput h quantity expirationDate notes producedBy isExpense =
     andThen (case strconv_ParseFloat h quantity of
                Inl err \<Rightarrow> respond (ErrorResponse (RequestValidationError INVALID_OPTION ''quantity''))
              | Inr q \<Rightarrow> proceed q)
       (\<lambda>q.
     andThen (if expirationDate \<noteq> '''' then
                (case time_Parse h ''2006-01-02'' expirationDate of
                   Inl err \<Rightarrow>
                     respond (ErrorResponse (RequestValidationError PARSE_FAILED ''expiration_date''))
                 | Inr tp \<Rightarrow> proceed (Some tp))
              else proceed None)
       (\<lambda>expDate.
     let n = (if notes \<noteq> '''' then Some notes else None);
         pb = (if producedBy \<noteq> '''' then Some producedBy else None);
         isExpenseBool = (if isExpense \<noteq> '''' \<and> isExpense = ''true'' then Some True else None)
     in proceed (q, expDate, n, pb, isExpenseBool)))"

text \<open>
  The rest of the handler (lines 819 to 837): the Material is constructed, the four
  optional fields are assigned, the Material is saved and answered.
\<close>

definition createAndSaveMaterial ::
  "FarmServer \<Rightarrow> Domain \<Rightarrow> Helpers \<Rightarrow> string \<Rightarrow> string \<Rightarrow> string \<Rightarrow> MaterialType option
    \<Rightarrow> float64 \<Rightarrow> string \<Rightarrow> Time option \<Rightarrow> string option \<Rightarrow> string option \<Rightarrow> bool option
    \<Rightarrow> response step" where
  "createAndSaveMaterial s d h name pricePerUnit currencyCode mt q quantityUnit
       expDate n pb isExpenseBool =
     andThen (call (Call_CreateMaterial name pricePerUnit currencyCode mt (to_float32 h q) quantityUnit)
                (CreateMaterial d name pricePerUnit currencyCode mt (to_float32 h q) quantityUnit))
       (\<lambda>created.
     andThen (case created of
                Inl err \<Rightarrow> respond (ErrorResponse err)
              | Inr material \<Rightarrow> proceed material)
       (\<lambda>material.
     let material = material\<lparr>ExpirationDate := expDate, Notes := n, ProducedBy := pb,
                              IsExpense := isExpenseBool\<rparr>
     in
     andThen (call (Call_MaterialRepo_Save material) (MaterialRepo_Save s material))
       (\<lambda>err.
     case err of
       Some e \<Rightarrow> respond (ErrorResponse e)
     | None \<Rightarrow> proceed (JSON StatusOK (MaterialData (MapToMaterial h material))))))"

definition SaveMaterial :: "FarmServer \<Rightarrow> Domain \<Rightarrow> Helpers \<Rightarrow> Context \<Rightarrow> response \<times> effect list" where
  "SaveMaterial s d h c = handler
     (let materialTypeParam = Param c ''type'';
          name = FormValue c ''name'';
          plantType = FormValue c ''plant_type'';
          chemicalType = FormValue c ''chemical_type'';
          containerType = FormValue c ''container_type'';
          pricePerUnit = FormValue c ''price_per_unit'';
          currencyCode = FormValue c ''currency_code'';
          quantity = FormValue c ''quantity'';
          quantityUnit = FormValue c ''quantity_unit'';
          expirationDate = FormValue c ''expiration_date'';
          notes = FormValue c ''notes'';
          isExpense = FormValue c ''is_expense'';
          producedBy = FormValue c ''produced_by''
      in
      andThen (validateMaterialInput h quantity expirationDate notes producedBy isExpense)
        (\<lambda>(q, expDate, n, pb, isExpenseBool).
      andThen (resolveMaterialType d materialTypeParam plantType chemicalType containerType)
        (\<lambda>mt.
      createAndSaveMaterial s d h name pricePerUnit currencyCode mt q quantityUnit
        expDate n pb isExpenseBool)))"

section \<open>The other handlers that save, and GetAreaPhotos\<close>

text \<open>
  Three fragments recur in the handlers and are written once here. After a
  \<^verbatim>\<open>FindByID\<close> a handler returns \<^verbatim>\<open>Error(c, result.Error)\<close> when the error is
  not \<^verbatim>\<open>nil\<close>, then asserts the dynamic type of \<^verbatim>\<open>result.Result\<close> and returns
  \<^verbatim>\<open>Error(c, echo.NewHTTPError(status, "Internal server error"))\<close> when the assertion
  fails; the status is the one the handler at hand passes.
\<close>

definition internalServerError :: error where
  "internalServerError = HTTPError StatusInternalServerError ''Internal server error''"

definition checkError :: "RepositoryResult \<Rightarrow> unit step" where
  "checkError result =
     (case Error result of
        Some e \<Rightarrow> respond (ErrorResponse e)
      | None \<Rightarrow> proceed ())"

definition assertFarm :: "nat \<Rightarrow> RepositoryResult \<Rightarrow> Farm step" where
  "assertFarm status result =
     (case Result result of
        FarmValue farm \<Rightarrow> proceed farm
      | _ \<Rightarrow> respond (ErrorResponse (HTTPError status ''Internal server error'')))"

definition assertReservoir :: "nat \<Rightarrow> RepositoryResult \<Rightarrow> Reservoir step" where
  "assertReservoir status result =
     (case Result result of
        ReservoirValue reservoir \<Rightarrow> proceed reservoir
      | _ \<Rightarrow> respond (ErrorResponse (HTTPError status ''Internal server error'')))"

definition assertArea :: "nat \<Rightarrow> RepositoryResult \<Rightarrow> Area step" where
  "assertArea status result =
     (case Result result of
        AreaValue area \<Rightarrow> proceed area
      | _ \<Rightarrow> respond (ErrorResponse (HTTPError status ''Internal server error'')))"

text \<open>\<^verbatim>\<open>if err != nil { return Error(c, err) }\<close> after a call that returns a value and
  an error.\<close>

definition orError :: "error + 'a \<Rightarrow> 'a step" where
  "orError r = (case r of Inl err \<Rightarrow> respond (ErrorResponse err) | Inr x \<Rightarrow> proceed x)"

definition SaveFarm :: "FarmServer \<Rightarrow> Domain \<Rightarrow> Context \<Rightarrow> response \<times> effect list" where
  "SaveFarm s d c = handler
     (andThen (call (Call_CreateFarm (FormValue c ''name'') (FormValue c ''farm_type''))
                 (CreateFarm d (FormValue c ''name'') (FormValue c ''farm_type'')))
        (\<lambda>created.
      andThen (orError created)
        (\<lambda>farm.
      andThen (call (Call_ChangeGeoLocation farm (FormValue c ''latitude'') (FormValue c ''longitude''))
                 (ChangeGeoLocation d farm (FormValue c ''latitude'') (FormValue c ''longitude'')))
        (\<lambda>located.
      andThen (orError located)
        (\<lambda>farm.
      andThen (call (Call_ChangeRegion farm (FormValue c ''country_code'') (FormValue c ''city_code''))
                 (ChangeRegion d farm (FormValue c ''country_code'') (FormValue c ''city_code'')))
        (\<lambda>regioned.
      andThen (orError regioned)
        (\<lambda>farm.
      andThen (call (Call_FarmRepo_Save farm) (FarmRepo_Save s farm))
        (\<lambda>err.
      case err of
        Some e \<Rightarrow> respond (ErrorResponse e)
      | None \<Rightarrow> proceed (JSON StatusOK (FarmData farm))))))))))"

text \<open>
  Modelled from the spec: the water-source types \<^verbatim>\<open>domain.BucketType\<close> and
  \<^verbatim>\<open>domain.TapType\<close> (section 4.1: the water-source type is one of
  \<^verbatim>\<open>bucket|tap\<close>).
\<close>

definition BucketType :: string where
  "BucketType = ''bucket''"

definition TapType :: string where
  "TapType = ''tap''"

definition SaveReservoir ::
  "FarmServer \<Rightarrow> Validation \<Rightarrow> DomainAssets \<Rightarrow> Helpers \<Rightarrow> Context \<Rightarrow> response \<times> effect list" where
  "SaveReservoir s v d h c = handler
     (andThen (orError (ValidateReservoirName v (FormValue c ''name'')))
        (\<lambda>name.
      andThen (orError (ValidateType v (FormValue c ''type'')))
        (\<lambda>waterSourceType.
      andThen (orError (ValidateCapacity v waterSourceType (FormValue c ''capacity'')))
        (\<lambda>capacity.
      andThen (orError (ValidateFarm v s (Param c ''id'')))
        (\<lambda>farm.
      andThen (call (Call_CreateReservoir farm name) (CreateReservoir d farm name))
        (\<lambda>created.
      andThen (orError created)
        (\<lambda>r.
      andThen
        (if waterSourceType = BucketType then
           andThen (call (Call_CreateBucket capacity 0) (CreateBucket d capacity 0))
             (\<lambda>made.
           andThen (orError made)
             (\<lambda>b. call (Call_AttachBucket r b) (AttachBucket d r b)))
         else if waterSourceType = TapType then
           andThen (call Call_CreateTap (CreateTap d))
             (\<lambda>made.
           andThen (orError made)
             (\<lambda>t. call (Call_AttachTap r) (AttachTap d r)))
         else proceed r)
        (\<lambda>r.
      andThen (call (Call_AddReservoir farm r) (AddReservoir d farm r))
        (\<lambda>added.
      andThen (orError added)
        (\<lambda>(farm, r).
      andThen (call (Call_ReservoirRepo_Save r) (ReservoirRepo_Save s r))
        (\<lambda>err.
      andThen (case err of Some e \<Rightarrow> respond (ErrorResponse e) | None \<Rightarrow> proceed ())
        (\<lambda>_.
      andThen (call (Call_FarmRepo_Save farm) (FarmRepo_Save s farm))
        (\<lambda>err.
      andThen (case err of Some e \<Rightarrow> respond (ErrorResponse e) | None \<Rightarrow> proceed ())
        (\<lambda>_.
      case MapToDetailReservoir h r of
        Inl err \<Rightarrow> respond (ErrorResponse internalServerError)
      | Inr detailReservoir \<Rightarrow>
          proceed (JSON StatusOK (DetailReservoirData detailReservoir))))))))))))))))"

text \<open>
  The two persisting steps of the four note handlers (\<^verbatim>\<open>// Persists //\<close>): the child
  is saved, then the farm; an error of either save is answered with a new
  \<^verbatim>\<open>echo.NewHTTPError(http.StatusInternalServerError, "Internal server error")\<close>.
\<close>

definition saveOrInternalError :: "effect \<Rightarrow> error option \<Rightarrow> unit step" where
  "saveOrInternalError e resultSave =
     andThen (call e resultSave)
       (\<lambda>resultSave.
        if resultSave \<noteq> None then respond (ErrorResponse internalServerError) else proceed ())"

definition SaveReservoirNotes ::
  "FarmServer \<Rightarrow> DomainNotes \<Rightarrow> Helpers \<Rightarrow> Context \<Rightarrow> response \<times> effect list" where
  "SaveReservoirNotes s d h c = handler
     (let reservoirID = Param c ''id'';
          content = FormValue c ''content''
      in
      andThen (call (Call_ReservoirRepo_FindByID reservoirID) (ReservoirRepo_FindByID s reservoirID))
        (\<lambda>result.
      andThen (checkError result)
        (\<lambda>_.
      andThen (assertReservoir StatusInternalServerError result)
        (\<lambda>reservoir.
      andThen (call (Call_FarmRepo_FindByID (Reservoir_Farm_UID reservoir))
                 (FarmRepo_FindByID s (Reservoir_Farm_UID reservoir)))
        (\<lambda>result.
      andThen (checkError result)
        (\<lambda>_.
      andThen (assertFarm StatusInternalServerError result)
        (\<lambda>farm.
      andThen (if content = '''' then
                 respond (ErrorResponse (RequestValidationError REQUIRED ''content''))
               else proceed ())
        (\<lambda>_.
      andThen (call (Call_Reservoir_AddNewNote reservoir content)
                 (Reservoir_AddNewNote d reservoir content))
        (\<lambda>reservoir.
      andThen (call (Call_ChangeReservoirInformation farm reservoir)
                 (ChangeReservoirInformation d farm reservoir))
        (\<lambda>(_, farm).
      andThen (saveOrInternalError (Call_ReservoirRepo_Save reservoir) (ReservoirRepo_Save s reservoir))
        (\<lambda>_.
      andThen (saveOrInternalError (Call_FarmRepo_Save farm) (FarmRepo_Save s farm))
        (\<lambda>_.
      case MapToDetailReservoir h reservoir of
        Inl err \<Rightarrow> respond (ErrorResponse internalServerError)
      | Inr detailReservoir \<Rightarrow>
          proceed (JSON StatusOK (DetailReservoirData detailReservoir))))))))))))))"

definition RemoveReservoirNotes ::
  "FarmServer \<Rightarrow> DomainNotes \<Rightarrow> Helpers \<Rightarrow> Context \<Rightarrow> response \<times> effect list" where
  "RemoveReservoirNotes s d h c = handler
     (let reservoirID = Param c ''reservoir_id'';
          noteID = Param c ''note_id''
      in
      andThen (call (Call_ReservoirRepo_FindByID reservoirID) (ReservoirRepo_FindByID s reservoirID))
        (\<lambda>result.
      andThen (checkError result)
        (\<lambda>_.
      andThen (assertReservoir StatusInternalServerError result)
        (\<lambda>reservoir.
      andThen (call (Call_FarmRepo_FindByID (Reservoir_Farm_UID reservoir))
                 (FarmRepo_FindByID s (Reservoir_Farm_UID reservoir)))
        (\<lambda>result.
      andThen (checkError result)
        (\<lambda>_.
      andThen (assertFarm StatusInternalServerError result)
        (\<lambda>farm.
      andThen (call (Call_Reservoir_RemoveNote reservoir noteID)
                 (Reservoir_RemoveNote d reservoir noteID))
        (\<lambda>removed.
      andThen (orError removed)
        (\<lambda>reservoir.
      andThen (call (Call_ChangeReservoirInformation farm reservoir)
                 (ChangeReservoirInformation d farm reservoir))
        (\<lambda>(err, farm).
      andThen (case err of Some e \<Rightarrow> respond (ErrorResponse e) | None \<Rightarrow> proceed ())
        (\<lambda>_.
      andThen (saveOrInternalError (Call_ReservoirRepo_Save reservoir) (ReservoirRepo_Save s reservoir))
        (\<lambda>_.
      andThen (saveOrInternalError (Call_FarmRepo_Save farm) (FarmRepo_Save s farm))
        (\<lambda>_.
      case MapToDetailReservoir h reservoir of
        Inl err \<Rightarrow> respond (ErrorResponse internalServerError)
      | Inr detailReservoir \<Rightarrow>
          proceed (JSON StatusOK (DetailReservoirData detailReservoir)))))))))))))))"

text \<open>
  \<^verbatim>\<open>photo.Header["Content-Type"][0]\<close>: indexing the values of a key the header does not
  hold panics.
\<close>

definition firstContentType :: "FileHeader \<Rightarrow> string step" where
  "firstContentType photo =
     (case map_of (FileHeader_Header photo) ''Content-Type'' of
        None \<Rightarrow> respond (Panic ''index out of range'')
      | Some [] \<Rightarrow> respond (Panic ''index out of range'')
      | Some (mimeType # _) \<Rightarrow> proceed mimeType)"

text \<open>The photo block of \<^verbatim>\<open>SaveArea\<close> (lines 452 to 475), entered when
  \<^verbatim>\<open>c.FormFile("photo")\<close> returns no error.\<close>

definition attachUploadedPhoto :: "FarmServer \<Rightarrow> Helpers \<Rightarrow> Context \<Rightarrow> Area \<Rightarrow> Area step" where
  "attachUploadedPhoto s h c area =
     (case FormFile c ''photo'' of
        Inl err \<Rightarrow> proceed area
      | Inr photo \<Rightarrow>
          (let destPath = stringhelper_Join h [UploadPathArea h, ''/'', FileHeader_Filename photo]
           in
           andThen (call (Call_File_Upload photo destPath) (File_Upload s photo destPath))
             (\<lambda>err.
           andThen (case err of Some e \<Rightarrow> respond (ErrorResponse e) | None \<Rightarrow> proceed ())
             (\<lambda>_.
           andThen (orError (GetImageDimension h destPath))
             (\<lambda>(width, height).
           andThen (firstContentType photo)
             (\<lambda>mimeType.
           proceed (area\<lparr>Photo :=
             \<lparr>Filename = FileHeader_Filename photo, MimeType = mimeType,
              Size = FileHeader_Size photo, Width = width, Height = height\<rparr>\<rparr>)))))))"

definition SaveArea ::
  "FarmServer \<Rightarrow> Validation \<Rightarrow> DomainAssets \<Rightarrow> Helpers \<Rightarrow> Context \<Rightarrow> response \<times> effect list" where
  "SaveArea s v d h c = handler
     (andThen (orError (ValidateFarm v s (Param c ''id'')))
        (\<lambda>farm.
      andThen (orError (ValidateReservoir v s (FormValue c ''reservoir_id'')))
        (\<lambda>reservoir.
      andThen (orError (ValidateAreaSize v (FormValue c ''size'') (FormValue c ''size_unit'')))
        (\<lambda>size.
      andThen (orError (ValidateAreaLocation v (FormValue c ''location'')))
        (\<lambda>location.
      andThen (call (Call_CreateArea farm (FormValue c ''name'') (FormValue c ''type''))
                 (CreateArea d farm (FormValue c ''name'') (FormValue c ''type'')))
        (\<lambda>created.
      andThen (orError created)
        (\<lambda>area.
      andThen (call (Call_ChangeSize area size) (ChangeSize d area size))
        (\<lambda>sized.
      andThen (orError sized)
        (\<lambda>area.
      andThen (call (Call_ChangeLocation area location) (ChangeLocation d area location))
        (\<lambda>located.
      andThen (orError located)
        (\<lambda>area.
      andThen (attachUploadedPhoto s h c area)
        (\<lambda>area.
      let area = area\<lparr>Area_Farm_UID := Farm_UID farm, Area_Reservoir_UID := Reservoir_UID reservoir\<rparr>
      in
      andThen (call (Call_AddArea farm area) (AddArea d farm area))
        (\<lambda>added.
      andThen (orError added)
        (\<lambda>(farm, area).
      andThen (call (Call_ReservoirRepo_Save reservoir) (ReservoirRepo_Save s reservoir))
        (\<lambda>err.
      andThen (case err of Some e \<Rightarrow> respond (ErrorResponse e) | None \<Rightarrow> proceed ())
        (\<lambda>_.
      andThen (call (Call_AreaRepo_Save area) (AreaRepo_Save s area))
        (\<lambda>err.
      andThen (case err of Some e \<Rightarrow> respond (ErrorResponse e) | None \<Rightarrow> proceed ())
        (\<lambda>_.
      andThen (call (Call_FarmRepo_Save farm) (FarmRepo_Save s farm))
        (\<lambda>err.
      andThen (case err of Some e \<Rightarrow> respond (ErrorResponse e) | None \<Rightarrow> proceed ())
        (\<lambda>_.
      andThen (orError (MapToDetailArea h area))
        (\<lambda>detailArea. proceed (JSON StatusOK (DetailAreaData detailArea)))))))))))))))))))))))"

definition SaveAreaNotes ::
  "FarmServer \<Rightarrow> DomainNotes \<Rightarrow> Helpers \<Rightarrow> Context \<Rightarrow> response \<times> effect list" where
  "SaveAreaNotes s d h c = handler
     (let areaID = Param c ''id'';
          content = FormValue c ''content''
      in
      andThen (call (Call_AreaRepo_FindByID areaID) (AreaRepo_FindByID s areaID))
        (\<lambda>result.
      andThen (checkError result)
        (\<lambda>_.
      andThen (assertArea StatusInternalServerError result)
        (\<lambda>area.
      andThen (call (Call_FarmRepo_FindByID (Area_Farm_UID area))
                 (FarmRepo_FindByID s (Area_Farm_UID area)))
        (\<lambda>result.
      andThen (checkError result)
        (\<lambda>_.
      andThen (assertFarm StatusInternalServerError result)
        (\<lambda>farm.
      andThen (if content = '''' then
                 respond (ErrorResponse (RequestValidationError REQUIRED ''content''))
               else proceed ())
        (\<lambda>_.
      andThen (call (Call_Area_AddNewNote area content) (Area_AddNewNote d area content))
        (\<lambda>area.
      andThen (call (Call_ChangeAreaInformation farm area) (ChangeAreaInformation d farm area))
        (\<lambda>(_, farm).
      andThen (saveOrInternalError (Call_AreaRepo_Save area) (AreaRepo_Save s area))
        (\<lambda>_.
      andThen (saveOrInternalError (Call_FarmRepo_Save farm) (FarmRepo_Save s farm))
        (\<lambda>_.
      andThen (orError (MapToDetailArea h area))
        (\<lambda>detailArea. proceed (JSON StatusOK (DetailAreaData detailArea)))))))))))))))"

definition RemoveAreaNotes ::
  "FarmServer \<Rightarrow> DomainNotes \<Rightarrow> Helpers \<Rightarrow> Context \<Rightarrow> response \<times> effect list" where
  "RemoveAreaNotes s d h c = handler
     (let areaID = Param c ''area_id'';
          noteID = Param c ''note_id''
      in
      andThen (call (Call_AreaRepo_FindByID areaID) (AreaRepo_FindByID s areaID))
        (\<lambda>result.
      andThen (checkError result)
        (\<lambda>_.
      andThen (assertArea StatusInternalServerError result)
        (\<lambda>area.
      andThen (call (Call_FarmRepo_FindByID (Area_Farm_UID area))
                 (FarmRepo_FindByID s (Area_Farm_UID area)))
        (\<lambda>result.
      andThen (checkError result)
        (\<lambda>_.
      andThen (assertFarm StatusInternalServerError result)
        (\<lambda>farm.
      andThen (call (Call_Area_RemoveNote area noteID) (Area_RemoveNote d area noteID))
        (\<lambda>removed.
      andThen (orError removed)
        (\<lambda>area.
      andThen (call (Call_ChangeAreaInformation farm area) (ChangeAreaInformation d farm area))
        (\<lambda>(err, farm).
      andThen (case err of Some e \<Rightarrow> respond (ErrorResponse e) | None \<Rightarrow> proceed ())
        (\<lambda>_.
      andThen (saveOrInternalError (Call_AreaRepo_Save area) (AreaRepo_Save s area))
        (\<lambda>_.
      andThen (saveOrInternalError (Call_FarmRepo_Save farm) (FarmRepo_Save s farm))
        (\<lambda>_.
      andThen (orError (MapToDetailArea h area))
        (\<lambda>detailArea. proceed (JSON StatusOK (DetailAreaData detailArea))))))))))))))))"

definition GetAreaPhotos :: "FarmServer \<Rightarrow> Helpers \<Rightarrow> Context \<Rightarrow> response \<times> effect list" where
  "GetAreaPhotos s h c = handler
     (andThen (call (Call_FarmRepo_FindByID (Param c ''farm_id''))
                 (FarmRepo_FindByID s (Param c ''farm_id'')))
        (\<lambda>result.
      andThen (checkError result)
        (\<lambda>_.
      andThen (assertFarm StatusBadRequest result)
        (\<lambda>_.
      andThen (call (Call_AreaRepo_FindByID (Param c ''area_id''))
                 (AreaRepo_FindByID s (Param c ''area_id'')))
        (\<lambda>result.
      andThen (checkError result)
        (\<lambda>_.
      andThen (assertArea StatusBadRequest result)
        (\<lambda>area.
      if Filename (Photo area) = '''' then
        respond (ErrorResponse (RequestValidationError NOT_FOUND ''photo''))
      else
        (let srcPath = stringhelper_Join h [UploadPathArea h, ''/'', Filename (Photo area)]
         in proceed (FileResponse srcPath)))))))))"

section \<open>The transition records of a Material\<close>

text \<open>
  \<^verbatim>\<open>src/assets/domain/material_events.go\<close> declares eight structs and nothing else.
  The declarations are kept as they are written: the structs by name, each with its fields
  in order, a field by its name and its Go type.
\<close>

datatype go_type =
    T_UUID
  | T_string
  | T_bool
  | T_Time
  | T_PricePerUnit
  | T_MaterialType
  | T_MaterialQuantity
  | T_pointer go_type

datatype record_type =
    MaterialCreated
  | MaterialNameChanged
  | MaterialPriceChanged
  | MaterialQuantityChanged
  | MaterialTypeChanged
  | MaterialExpirationDateChanged
  | MaterialNotesChanged
  | MaterialProducedByChanged

fun fields :: "record_type \<Rightarrow> (string \<times> go_type) list" where
  "fields MaterialCreated =
     [(''UID'', T_UUID), (''Name'', T_string), (''PricePerUnit'', T_PricePerUnit),
      (''Type'', T_MaterialType), (''Quantity'', T_MaterialQuantity),
      (''ExpirationDate'', T_pointer T_Time), (''Notes'', T_pointer T_string),
      (''ProducedBy'', T_pointer T_string), (''CreatedDate'', T_Time)]"
| "fields MaterialNameChanged = [(''MaterialUID'', T_UUID), (''Name'', T_string)]"
| "fields MaterialPriceChanged = [(''MaterialUID'', T_UUID), (''Price'', T_PricePerUnit)]"
| "fields MaterialQuantityChanged = [(''MaterialUID'', T_UUID), (''Quantity'', T_MaterialQuantity)]"
| "fields MaterialTypeChanged = [(''MaterialUID'', T_UUID), (''MaterialType'', T_MaterialType)]"
| "fields MaterialExpirationDateChanged = [(''MaterialUID'', T_UUID), (''ExpirationDate'', T_Time)]"
| "fields MaterialNotesChanged = [(''MaterialUID'', T_UUID), (''Notes'', T_string)]"
| "fields MaterialProducedByChanged = [(''MaterialUID'', T_UUID), (''ProducedBy'', T_string)]"

text \<open>
  Modelled from the spec: the struct \<^verbatim>\<open>Material\<close> is declared in
  \<^verbatim>\<open>src/assets/domain/material.go\<close>, outside the sources at hand. Its fields are
  those section 3 of the specification gives a Material (id, name, pricePerUnit, type,
  quantity, expirationDate, notes, producedBy, isExpense), under the names of the record
  \<open>Material\<close> above; \<^verbatim>\<open>SaveMaterial\<close> assigns the last four by these names, from a
  \<^verbatim>\<open>*time.Time\<close>, two \<^verbatim>\<open>*string\<close> and a \<^verbatim>\<open>*bool\<close> (lines 824 to 827).
\<close>

definition Material_fields :: "(string \<times> go_type) list" where
  "Material_fields =
     [(''UID'', T_UUID), (''Name'', T_string), (''PricePerUnit'', T_PricePerUnit),
      (''Type'', T_MaterialType), (''Quantity'', T_MaterialQuantity),
      (''ExpirationDate'', T_pointer T_Time), (''Notes'', T_pointer T_string),
      (''ProducedBy'', T_pointer T_string), (''IsExpense'', T_pointer T_bool)]"

text \<open>
  The eight kinds of mutation section 3 of the specification lists, each with the struct
  that bears its name, and for a change the field of the creation record it replaces.
\<close>

datatype mutation_kind =
    Creation
  | NameChanged
  | PriceChanged
  | QuantityChanged
  | TypeChanged
  | ExpirationChanged
  | NotesChanged
  | ProducedByChanged

fun record_of :: "mutation_kind \<Rightarrow> record_type" where
  "record_of Creation = MaterialCreated"
| "record_of NameChanged = MaterialNameChanged"
| "record_of PriceChanged = MaterialPriceChanged"
| "record_of QuantityChanged = MaterialQuantityChanged"
| "record_of TypeChanged = MaterialTypeChanged"
| "record_of ExpirationChanged = MaterialExpirationDateChanged"
| "record_of NotesChanged = MaterialNotesChanged"
| "record_of ProducedByChanged = MaterialProducedByChanged"

fun changed_field :: "mutation_kind \<Rightarrow> string option" where
  "changed_field Creation = None"
| "changed_field NameChanged = Some ''Name''"
| "changed_field PriceChanged = Some ''PricePerUnit''"
| "changed_field QuantityChanged = Some ''Quantity''"
| "changed_field TypeChanged = Some ''Type''"
| "changed_field ExpirationChanged = Some ''ExpirationDate''"
| "changed_field NotesChanged = Some ''Notes''"
| "changed_field ProducedByChanged = Some ''ProducedBy''"

text \<open>A field declared optional (a pointer) holds a value of the type pointed to.\<close>

fun value_type :: "go_type \<Rightarrow> go_type" where
  "value_type (T_pointer t) = t"
| "value_type t = t"

text \<open>
  The name under which a record of a change holds the new value: the name of the field in
  the Material, except that \<^verbatim>\<open>MaterialPriceChanged\<close> calls it \<^verbatim>\<open>Price\<close> and
  \<^verbatim>\<open>MaterialTypeChanged\<close> calls it \<^verbatim>\<open>MaterialType\<close>.
\<close>

definition new_value_name :: "string \<Rightarrow> string" where
  "new_value_name f =
     (if f = ''PricePerUnit'' then ''Price''
      else if f = ''Type'' then ''MaterialType''
      else f)"

text \<open>
  What a record type carries. \<open>carries_identifier R\<close>: the first field of \<open>R\<close> is the
  identifier of the aggregate, of the type the Material's \<^verbatim>\<open>UID\<close> has.
  \<open>carries_initial_value R f\<close>: \<open>R\<close> declares the Material's field \<open>f\<close>, under its
  name and with its type. \<open>carries_new_value R f\<close>: \<open>R\<close> is made of the identifier and
  of one field, named after \<open>f\<close>, that holds a value of the type of \<open>f\<close>.
\<close>

definition carries_identifier :: "record_type \<Rightarrow> bool" where
  "carries_identifier R =
     (case fields R of
        [] \<Rightarrow> False
      | (n, t) # rest \<Rightarrow>
          (n = ''UID'' \<or> n = ''MaterialUID'') \<and> map_of Material_fields ''UID'' = Some t)"

definition carries_initial_value :: "record_type \<Rightarrow> string \<Rightarrow> bool" where
  "carries_initial_value R f =
     (case map_of Material_fields f of
        None \<Rightarrow> False
      | Some t \<Rightarrow> map_of (fields R) f = Some t)"

definition carries_new_value :: "record_type \<Rightarrow> string \<Rightarrow> bool" where
  "carries_new_value R f =
     (case map_of Material_fields f of
        None \<Rightarrow> False
      | Some t \<Rightarrow> fields R = [(''MaterialUID'', T_UUID), (new_value_name f, value_type t)])"

text \<open>The fields of the Material other than \<^verbatim>\<open>IsExpense\<close>.\<close>

definition initial_fields :: "string list" where
  "initial_fields =
     [''UID'', ''Name'', ''PricePerUnit'', ''Type'', ''Quantity'', ''ExpirationDate'', ''Notes'',
      ''ProducedBy'']"

section \<open>Properties of a trace\<close>

text \<open>
  The calls that change the notes of a child, the calls that bring the farm's mirror up
  to date, and the calls that persist an aggregate.
\<close>

fun is_note_mutation :: "effect \<Rightarrow> bool" where
  "is_note_mutation (Call_Reservoir_AddNewNote _ _) = True"
| "is_note_mutation (Call_Reservoir_RemoveNote _ _) = True"
| "is_note_mutation (Call_Area_AddNewNote _ _) = True"
| "is_note_mutation (Call_Area_RemoveNote _ _) = True"
| "is_note_mutation _ = False"

fun is_sync :: "effect \<Rightarrow> bool" where
  "is_sync (Call_ChangeReservoirInformation _ _) = True"
| "is_sync (Call_ChangeAreaInformation _ _) = True"
| "is_sync _ = False"

fun is_save :: "effect \<Rightarrow> bool" where
  "is_save (Call_FarmRepo_Save _) = True"
| "is_save (Call_ReservoirRepo_Save _) = True"
| "is_save (Call_AreaRepo_Save _) = True"
| "is_save (Call_MaterialRepo_Save _) = True"
| "is_save _ = False"

text \<open>
  \<open>synced_before_save t\<close>: every save in the trace \<open>t\<close> comes after a
  synchronization call, which itself comes after a note mutation.
\<close>

definition synced_before_save :: "effect list \<Rightarrow> bool" where
  "synced_before_save t =
     (\<forall>k < length t. is_save (t ! k) \<longrightarrow>
        (\<exists>j < k. is_sync (t ! j) \<and> (\<exists>i < j. is_note_mutation (t ! i))))"

text \<open>
  The child a note mutation leaves behind, for a call that is a note mutation and went
  through (\<^verbatim>\<open>RemoveNote\<close> may fail, and then nothing is changed), and the child
  a synchronization call is handed. \<open>sync_follows_mutation d t\<close>: in the trace \<open>t\<close>
  every note mutation that went through is followed at once by a synchronization call on
  the child as the mutation left it.
\<close>

fun mutated_child :: "DomainNotes \<Rightarrow> effect \<Rightarrow> dynamic option" where
  "mutated_child d (Call_Reservoir_AddNewNote r content) =
     Some (ReservoirValue (Reservoir_AddNewNote d r content))"
| "mutated_child d (Call_Reservoir_RemoveNote r uid) =
     (case Reservoir_RemoveNote d r uid of
        Inl err \<Rightarrow> None
      | Inr r' \<Rightarrow> Some (ReservoirValue r'))"
| "mutated_child d (Call_Area_AddNewNote a content) =
     Some (AreaValue (Area_AddNewNote d a content))"
| "mutated_child d (Call_Area_RemoveNote a uid) =
     (case Area_RemoveNote d a uid of
        Inl err \<Rightarrow> None
      | Inr a' \<Rightarrow> Some (AreaValue a'))"
| "mutated_child d _ = None"

fun synced_child :: "effect \<Rightarrow> dynamic option" where
  "synced_child (Call_ChangeReservoirInformation farm r) = Some (ReservoirValue r)"
| "synced_child (Call_ChangeAreaInformation farm a) = Some (AreaValue a)"
| "synced_child _ = None"

definition sync_follows_mutation :: "DomainNotes \<Rightarrow> effect list \<Rightarrow> bool" where
  "sync_follows_mutation d t =
     (\<forall>i < length t. mutated_child d (t ! i) \<noteq> None \<longrightarrow>
        Suc i < length t \<and> synced_child (t ! Suc i) = mutated_child d (t ! i))"

text \<open>The calls a handler made to construct or persist a Material.\<close>

fun constructs_material :: "effect \<Rightarrow> bool" where
  "constructs_material (Call_CreateMaterial _ _ _ _ _ _) = True"
| "constructs_material (Call_MaterialRepo_Save _) = True"
| "constructs_material _ = False"

text \<open>
  The shape of the trace of a note handler: either it holds no save, or it starts with the
  two lookups, the note mutation and the synchronization.
\<close>

definition note_trace :: "effect list \<Rightarrow> bool" where
  "note_trace t = ((\<forall>e \<in> set t. \<not> is_save e) \<or>
     (\<exists>a b m sy rest. t = a # b # m # sy # rest \<and> \<not> is_save a \<and> \<not> is_save b \<and>
        is_note_mutation m \<and> is_sync sy))"

text \<open>The two lookups at the head of a note handler: the child, then the farm it refers
  to.\<close>

definition found_reservoir :: "FarmServer \<Rightarrow> string \<Rightarrow> Reservoir \<Rightarrow> Farm \<Rightarrow> bool" where
  "found_reservoir s uid r farm =
     (Error (ReservoirRepo_FindByID s uid) = None \<and>
      Result (ReservoirRepo_FindByID s uid) = ReservoirValue r \<and>
      Error (FarmRepo_FindByID s (Reservoir_Farm_UID r)) = None \<and>
      Result (FarmRepo_FindByID s (Reservoir_Farm_UID r)) = FarmValue farm)"

definition found_area :: "FarmServer \<Rightarrow> string \<Rightarrow> Area \<Rightarrow> Farm \<Rightarrow> bool" where
  "found_area s uid a farm =
     (Error (AreaRepo_FindByID s uid) = None \<and>
      Result (AreaRepo_FindByID s uid) = AreaValue a \<and>
      Error (FarmRepo_FindByID s (Area_Farm_UID a)) = None \<and>
      Result (FarmRepo_FindByID s (Area_Farm_UID a)) = FarmValue farm)"

text \<open>
  What a save delivered, read off the call; \<open>save_error_ends s f (r, t)\<close>: a save in
  the trace \<open>t\<close> that ended in an error \<open>err\<close> is the last call of \<open>t\<close> and the
  response \<open>r\<close> is \<^verbatim>\<open>Error(c, f err)\<close>; \<open>save_guarded\<close> is the same for a step,
  which may go on only after saves that succeeded.
\<close>

fun save_outcome :: "FarmServer \<Rightarrow> effect \<Rightarrow> error option" where
  "save_outcome s (Call_FarmRepo_Save x) = FarmRepo_Save s x"
| "save_outcome s (Call_ReservoirRepo_Save x) = ReservoirRepo_Save s x"
| "save_outcome s (Call_AreaRepo_Save x) = AreaRepo_Save s x"
| "save_outcome s (Call_MaterialRepo_Save x) = MaterialRepo_Save s x"
| "save_outcome s _ = None"

definition save_error_ends :: "FarmServer \<Rightarrow> (error \<Rightarrow> error) \<Rightarrow> response \<times> effect list \<Rightarrow> bool" where
  "save_error_ends s f rt =
     (\<forall>k < length (snd rt). \<forall>err. save_outcome s (snd rt ! k) = Some err \<longrightarrow>
        Suc k = length (snd rt) \<and> fst rt = ErrorResponse (f err))"

definition save_guarded :: "FarmServer \<Rightarrow> (error \<Rightarrow> error) \<Rightarrow> 'a step \<Rightarrow> bool" where
  "save_guarded s f m =
     (case fst m of
        Inl r \<Rightarrow> save_error_ends s f (r, snd m)
      | Inr x \<Rightarrow> (\<forall>e \<in> set (snd m). save_outcome s e = None))"

section \<open>An instance of the collaborators\<close>

text \<open>
  The properties below hold for every repository, every domain function and every parser.
  To run the handlers on concrete requests this section fixes one instance: repositories
  over lists of aggregates whose saves all end in a given outcome, and domain functions
  that follow sections 3 and 4 of the specification.
\<close>

definition request :: "(string \<times> string) list \<Rightarrow> (string \<times> string) list \<Rightarrow> Context" where
  "request params form =
     \<lparr>Param = (\<lambda>k. case map_of params k of Some v \<Rightarrow> v | None \<Rightarrow> ''''),
      FormValue = (\<lambda>k. case map_of form k of Some v \<Rightarrow> v | None \<Rightarrow> ''''),
      FormFile = (\<lambda>k. Inl (OtherError ''http: no such file''))\<rparr>"

definition notFound :: RepositoryResult where
  "notFound = \<lparr>Result = NilValue, Error = Some (RequestValidationError NOT_FOUND ''id'')\<rparr>"

definition memoryServer ::
  "Farm list \<Rightarrow> Reservoir list \<Rightarrow> Area list \<Rightarrow> error option \<Rightarrow> FarmServer" where
  "memoryServer farms reservoirs areas saved =
     \<lparr>FarmRepo_FindByID =
        (\<lambda>uid. case find (\<lambda>f. Farm_UID f = uid) farms of
           Some f \<Rightarrow> \<lparr>Result = FarmValue f, Error = None\<rparr>
         | None \<Rightarrow> notFound),
      FarmRepo_Save = (\<lambda>farm. saved),
      ReservoirRepo_FindByID =
        (\<lambda>uid. case find (\<lambda>r. Reservoir_UID r = uid) reservoirs of
           Some r \<Rightarrow> \<lparr>Result = ReservoirValue r, Error = None\<rparr>
         | None \<Rightarrow> notFound),
      ReservoirRepo_Save = (\<lambda>reservoir. saved),
      AreaRepo_FindByID =
        (\<lambda>uid. case find (\<lambda>a. Area_UID a = uid) areas of
           Some a \<Rightarrow> \<lparr>Result = AreaValue a, Error = None\<rparr>
         | None \<Rightarrow> notFound),
      AreaRepo_Save = (\<lambda>area. saved),
      MaterialRepo_Save = (\<lambda>material. saved),
      File_Upload = (\<lambda>photo destPath. None)\<rparr>"

definition exampleDomain :: Domain where
  "exampleDomain =
     \<lparr>PlantTypes = [\<lparr>PlantType_Code = ''vegetable''\<rparr>, \<lparr>PlantType_Code = ''fruit''\<rparr>],
      ChemicalTypes = [\<lparr>ChemicalType_Code = ''fertilizer''\<rparr>],
      ContainerTypes = [\<lparr>ContainerType_Code = ''tray''\<rparr>, \<lparr>ContainerType_Code = ''pot''\<rparr>],
      CreateMaterialTypeSeed = (\<lambda>code. Inr (MaterialTypeSeed code)),
      CreateMaterialTypeAgrochemical = (\<lambda>code. Inr (MaterialTypeAgrochemical code)),
      CreateMaterialTypeSeedingContainer = (\<lambda>code. Inr (MaterialTypeSeedingContainer code)),
      CreateMaterial =
        (\<lambda>name price currency mt quantity unit.
           if name = '''' then Inl (RequestValidationError REQUIRED ''name'')
           else Inr \<lparr>UID = ''material-1'', Name = name,
                     PricePerUnit = \<lparr>Amount = price, CurrencyCode = currency\<rparr>,
                     Type = mt,
                     Quantity = \<lparr>Quantity_Value = quantity, Quantity_Unit = unit\<rparr>,
                     ExpirationDate = None, Notes = None, ProducedBy = None,
                     IsExpense = None\<rparr>),
      CreateFarm =
        (\<lambda>name farmType.
           if name = '''' then Inl (RequestValidationError REQUIRED ''name'')
           else Inr \<lparr>Farm_UID = ''farm-1'', Farm_Name = name, Farm_Type = farmType,
                     Latitude = '''', Longitude = '''', CountryCode = '''', CityCode = '''',
                     Reservoirs = [], Areas = []\<rparr>),
      ChangeGeoLocation =
        (\<lambda>farm latitude longitude. Inr (farm\<lparr>Latitude := latitude, Longitude := longitude\<rparr>)),
      ChangeRegion =
        (\<lambda>farm country city. Inr (farm\<lparr>CountryCode := country, CityCode := city\<rparr>))\<rparr>"

definition exampleNotes :: DomainNotes where
  "exampleNotes =
     \<lparr>Reservoir_AddNewNote =
        (\<lambda>r content. r\<lparr>Reservoir_Notes := Reservoir_Notes r @
           [\<lparr>Note_UID = ''note-new'', Content = content, Note_CreatedDate = 0\<rparr>]\<rparr>),
      Reservoir_RemoveNote =
        (\<lambda>r uid.
           if list_ex (\<lambda>n. Note_UID n = uid) (Reservoir_Notes r)
           then Inr (r\<lparr>Reservoir_Notes := filter (\<lambda>n. Note_UID n \<noteq> uid) (Reservoir_Notes r)\<rparr>)
           else Inl (RequestValidationError NOT_FOUND ''note_id'')),
      ChangeReservoirInformation =
        (\<lambda>farm r.
           if list_ex (\<lambda>m. Reservoir_UID m = Reservoir_UID r) (Reservoirs farm)
           then (None, farm\<lparr>Reservoirs :=
                   map (\<lambda>m. if Reservoir_UID m = Reservoir_UID r then r else m) (Reservoirs farm)\<rparr>)
           else (Some (RequestValidationError NOT_FOUND ''reservoir''), farm)),
      Area_AddNewNote =
        (\<lambda>a content. a\<lparr>Area_Notes := Area_Notes a @
           [\<lparr>Note_UID = ''note-new'', Content = content, Note_CreatedDate = 0\<rparr>]\<rparr>),
      Area_RemoveNote =
        (\<lambda>a uid.
           if list_ex (\<lambda>n. Note_UID n = uid) (Area_Notes a)
           then Inr (a\<lparr>Area_Notes := filter (\<lambda>n. Note_UID n \<noteq> uid) (Area_Notes a)\<rparr>)
           else Inl (RequestValidationError NOT_FOUND ''note_id'')),
      ChangeAreaInformation =
        (\<lambda>farm a.
           if list_ex (\<lambda>m. Area_UID m = Area_UID a) (Areas farm)
           then (None, farm\<lparr>Areas :=
                   map (\<lambda>m. if Area_UID m = Area_UID a then a else m) (Areas farm)\<rparr>)
           else (Some (RequestValidationError NOT_FOUND ''area''), farm))\<rparr>"

text \<open>A parser of unsigned decimal numerals, and one of dates written
  \<^verbatim>\<open>YYYY-MM-DD\<close>, for the instance.\<close>

fun parseDigits :: "string \<Rightarrow> int \<Rightarrow> int option" where
  "parseDigits [] acc = Some acc"
| "parseDigits (ch # cs) acc =
     (if (48::int) \<le> of_char ch \<and> of_char ch \<le> (57::int)
      then parseDigits cs (10 * acc + (of_char ch - 48))
      else None)"

definition exampleParseFloat :: "string \<Rightarrow> error + float64" where
  "exampleParseFloat s =
     (if s = [] then Inl (OtherError ''strconv.ParseFloat: invalid syntax'')
      else case parseDigits s 0 of
             None \<Rightarrow> Inl (OtherError ''strconv.ParseFloat: invalid syntax'')
           | Some n \<Rightarrow> Inr (of_int n))"

definition exampleParseDate :: "string \<Rightarrow> string \<Rightarrow> error + Time" where
  "exampleParseDate layout s =
     (if layout = ''2006-01-02'' \<and> length s = 10 \<and> s ! 4 = CHR ''-'' \<and> s ! 7 = CHR ''-'' then
        (case (parseDigits (take 4 s) 0, parseDigits (take 2 (drop 5 s)) 0,
               parseDigits (drop 8 s) 0) of
           (Some y, Some m, Some d) \<Rightarrow>
             if 1 \<le> m \<and> m \<le> 12 \<and> 1 \<le> d \<and> d \<le> 31
             then Inr (y * 10000 + m * 100 + d)
             else Inl (OtherError ''parsing time: out of range'')
         | _ \<Rightarrow> Inl (OtherError ''parsing time: cannot parse''))
      else Inl (OtherError ''parsing time: cannot parse''))"

definition exampleHelpers :: Helpers where
  "exampleHelpers =
     \<lparr>strconv_ParseFloat = exampleParseFloat,
      to_float32 = (\<lambda>q. q),
      time_Parse = exampleParseDate,
      stringhelper_Join = concat,
      UploadPathArea = ''uploads/areas'',
      GetImageDimension = (\<lambda>path. Inr (640, 480)),
      MapToDetailReservoir = (\<lambda>r. Inr (DetailReservoir r)),
      MapToDetailArea = (\<lambda>a. Inr (DetailArea a)),
      MapToMaterial = MaterialView\<rparr>"

text \<open>A farm that holds no mirror yet, a reservoir and two areas that refer to it, each
  child with one note.\<close>

definition farm1 :: Farm where
  "farm1 =
     \<lparr>Farm_UID = ''farm-1'', Farm_Name = ''F1'', Farm_Type = ''organic'',
      Latitude = ''-6.2'', Longitude = ''106.8'', CountryCode = ''ID'', CityCode = ''JK'',
      Reservoirs = [], Areas = []\<rparr>"

definition reservoir1 :: Reservoir where
  "reservoir1 =
     \<lparr>Reservoir_UID = ''reservoir-1'', Reservoir_Name = ''R1'', Reservoir_Farm_UID = ''farm-1'',
      Reservoir_WaterSource = TapSource,
      Reservoir_Notes = [\<lparr>Note_UID = ''note-1'', Content = ''clean the filter'', Note_CreatedDate = 0\<rparr>]\<rparr>"

definition noPhoto :: AreaPhoto where
  "noPhoto = \<lparr>Filename = '''', MimeType = '''', Size = 0, Width = 0, Height = 0\<rparr>"

definition area1 :: Area where
  "area1 =
     \<lparr>Area_UID = ''area-1'', Area_Name = ''A1'', Area_Type = ''seeding'',
      Area_Farm_UID = ''farm-1'', Area_Reservoir_UID = ''reservoir-1'',
      Area_Size = (10, ''m2''), Area_Location = ''indoor'', Photo = noPhoto,
      Area_Notes = [\<lparr>Note_UID = ''note-2'', Content = ''sow on monday'', Note_CreatedDate = 0\<rparr>]\<rparr>"

definition area2 :: Area where
  "area2 =
     area1\<lparr>Area_UID := ''area-2'',
            Photo := \<lparr>Filename = ''plot.jpg'', MimeType = ''image/jpeg'', Size = 2048,
                      Width = 640, Height = 480\<rparr>\<rparr>"

definition exampleServer :: "error option \<Rightarrow> FarmServer" where
  "exampleServer saved = memoryServer [farm1] [reservoir1] [area1, area2] saved"

text \<open>The same farm holding the mirrors of its reservoir and of its two areas, and
  the repositories over it.\<close>

definition farm2 :: Farm where
  "farm2 = farm1\<lparr>Reservoirs := [reservoir1], Areas := [area1, area2]\<rparr>"

definition mirroredServer :: "error option \<Rightarrow> FarmServer" where
  "mirroredServer saved = memoryServer [farm2] [reservoir1] [area1, area2] saved"

text \<open>
  Requests to the handlers. \<open>materialForm\<close> is a complete form for
  \<^verbatim>\<open>POST /inventories/materials/:type\<close>; a request that differs in one field puts the
  field in front, where the lookup finds it first.
\<close>

definition materialForm :: "(string \<times> string) list" where
  "materialForm =
     [(''name'', ''Lettuce''), (''plant_type'', ''vegetable''), (''chemical_type'', ''''),
      (''container_type'', ''''), (''price_per_unit'', ''3''), (''currency_code'', ''EUR''),
      (''quantity'', ''12''), (''quantity_unit'', ''packets''),
      (''expiration_date'', ''2027-03-01''), (''notes'', ''organic''),
      (''is_expense'', ''false''), (''produced_by'', ''Bejo'')]"

definition materialRequest :: "string \<Rightarrow> (string \<times> string) list \<Rightarrow> Context" where
  "materialRequest category changed = request [(''type'', category)] (changed @ materialForm)"

definition lettuce :: Material where
  "lettuce =
     \<lparr>UID = ''material-1'', Name = ''Lettuce'',
      PricePerUnit = \<lparr>Amount = ''3'', CurrencyCode = ''EUR''\<rparr>,
      Type = Some (MaterialTypeSeed ''vegetable''),
      Quantity = \<lparr>Quantity_Value = 12, Quantity_Unit = ''packets''\<rparr>,
      ExpirationDate = Some 20270301, Notes = Some ''organic'', ProducedBy = Some ''Bejo'',
      IsExpense = None\<rparr>"

text \<open>Requests to the other handlers.\<close>

definition photoRequest :: "string \<Rightarrow> Context" where
  "photoRequest areaID = request [(''farm_id'', ''farm-1''), (''area_id'', areaID)] []"

definition addNoteRequest :: "string \<Rightarrow> string \<Rightarrow> Context" where
  "addNoteRequest uid content = request [(''id'', uid)] [(''content'', content)]"

definition removeNoteRequest :: "string \<Rightarrow> string \<Rightarrow> Context" where
  "removeNoteRequest uid noteID =
     request [(''reservoir_id'', uid), (''area_id'', uid), (''note_id'', noteID)] []"

definition farmRequest :: Context where
  "farmRequest = request []
     [(''name'', ''F1''), (''farm_type'', ''organic''), (''latitude'', ''-6.2''),
      (''longitude'', ''106.8''), (''country_code'', ''ID''), (''city_code'', ''JK'')]"

section \<open>Rules for steps\<close>

lemma andThen_Inl [simp]: "andThen (Inl r, t) f = (Inl r, t)"
  by (simp add: andThen_def)

lemma andThen_Inr [simp]: "andThen (Inr x, t) f = (fst (f x), t @ snd (f x))"
  by (simp add: andThen_def split: prod.splits)

lemma handler_pair [simp]: "handler (Inl r, t) = (r, t)" "handler (Inr r, t) = (r, t)"
  by (simp_all add: handler_def)

lemma snd_handler [simp]: "snd (handler m) = snd m"
  by (cases m) (auto simp: handler_def split: sum.splits)

lemmas step_defs = respond_def proceed_def call_def

section \<open>SaveMaterial: validation, category and construction\<close>

lemma category_codes_lower:
  "strings_ToLower MaterialTypeSeedCode = ''seed''"
  "strings_ToLower MaterialTypeAgrochemicalCode = ''agrochemical''"
  "strings_ToLower MaterialTypeGrowingMediumCode = ''growing_medium''"
  "strings_ToLower MaterialTypeLabelAndCropSupportCode = ''label_and_crop_support''"
  "strings_ToLower MaterialTypeSeedingContainerCode = ''seeding_container''"
  "strings_ToLower MaterialTypePostHarvestSupplyCode = ''post_harvest_supply''"
  "strings_ToLower MaterialTypeOtherCode = ''other''"
  by code_simp+

text \<open>The validation block, case by case.\<close>

lemma validateMaterialInput_cases:
  "validateMaterialInput h quantity expirationDate notes producedBy isExpense =
    (case strconv_ParseFloat h quantity of
       Inl err \<Rightarrow> respond (ErrorResponse (RequestValidationError INVALID_OPTION ''quantity''))
     | Inr q \<Rightarrow>
        (if expirationDate = '''' then
           proceed (q, None, if notes = '''' then None else Some notes,
                    if producedBy = '''' then None else Some producedBy,
                    if isExpense = ''true'' then Some True else None)
         else case time_Parse h ''2006-01-02'' expirationDate of
                Inl err \<Rightarrow>
                  respond (ErrorResponse (RequestValidationError PARSE_FAILED ''expiration_date''))
              | Inr tp \<Rightarrow>
                 proceed (q, Some tp, if notes = '''' then None else Some notes,
                    if producedBy = '''' then None else Some producedBy,
                    if isExpense = ''true'' then Some True else None)))"
  unfolding validateMaterialInput_def Let_def step_defs
  by (auto split: sum.splits)

text \<open>
  C3. The claim: a quantity that does not parse as a number makes \<^verbatim>\<open>SaveMaterial\<close>
  fail with kind \<^verbatim>\<open>PARSE_FAILED\<close> on field \<^verbatim>\<open>quantity\<close>, and no Material is
  constructed. What the handler does: whenever \<^verbatim>\<open>strconv.ParseFloat\<close> returns an
  error for the quantity, it answers \<^verbatim>\<open>INVALID_OPTION\<close> on \<^verbatim>\<open>quantity\<close> and
  has made no call at all (so no Material is constructed); the kind is not
  \<^verbatim>\<open>PARSE_FAILED\<close>, the kind the same handler gives a malformed expiration date.
\<close>

theorem SaveMaterial_quantity_not_a_number:
  "strconv_ParseFloat h (FormValue c ''quantity'') = Inl err \<Longrightarrow>
   SaveMaterial s d h c = (ErrorResponse (RequestValidationError INVALID_OPTION ''quantity''), [])"
  by (simp add: SaveMaterial_def Let_def validateMaterialInput_cases step_defs)

theorem SaveMaterial_quantity_not_a_number_witness:
  "strconv_ParseFloat exampleHelpers
     (FormValue (materialRequest ''seed'' [(''quantity'', ''1x'')]) ''quantity'')
     = Inl (OtherError ''strconv.ParseFloat: invalid syntax'')
   \<and> SaveMaterial (exampleServer None) exampleDomain exampleHelpers
       (materialRequest ''seed'' [(''quantity'', ''1x'')])
     = (ErrorResponse (RequestValidationError INVALID_OPTION ''quantity''), [])"
proof -
  have parse: "strconv_ParseFloat exampleHelpers
      (FormValue (materialRequest ''seed'' [(''quantity'', ''1x'')]) ''quantity'')
      = Inl (OtherError ''strconv.ParseFloat: invalid syntax'')"
    by (simp add: exampleHelpers_def exampleParseFloat_def materialRequest_def request_def)
  show ?thesis
    using parse SaveMaterial_quantity_not_a_number [OF parse] by simp
qed

lemma resolveMaterialType_unrecognized:
  assumes "p \<notin> {''seed'', ''agrochemical'', ''growing_medium'', ''label_and_crop_support'',
                ''seeding_container'', ''post_harvest_supply'', ''other''}"
  shows "resolveMaterialType d p a b c = proceed None"
  using assms unfolding resolveMaterialType_def category_codes_lower by simp

lemma GetPlantType_not_found:
  assumes "code \<notin> PlantType_Code ` set (PlantTypes d)"
  shows "GetPlantType d code = PlantType_zero"
proof -
  have "find (\<lambda>v. PlantType_Code v = code) (PlantTypes d) = None"
    using assms by (auto simp: find_None_iff)
  then show ?thesis by (simp add: GetPlantType_def)
qed

lemma resolveMaterialType_seed_not_found:
  assumes "p = ''seed''" and "a \<notin> PlantType_Code ` set (PlantTypes d)"
  shows "resolveMaterialType d p a b c =
    respond (ErrorResponse (RequestValidationError INVALID_OPTION ''plant_type''))"
  using assms unfolding resolveMaterialType_def category_codes_lower
  by (simp add: GetPlantType_not_found)

lemma resolveMaterialType_trace:
  "e \<in> set (snd (resolveMaterialType d p a b c)) \<Longrightarrow> \<not> constructs_material e"
  unfolding resolveMaterialType_def Let_def step_defs
  by (auto split: if_splits sum.splits)

lemma createAndSaveMaterial_trace_head:
  "\<exists>rest. snd (createAndSaveMaterial s d h name price cur mt q unit expDate n pb ie) =
     Call_CreateMaterial name price cur mt (to_float32 h q) unit # rest"
  unfolding createAndSaveMaterial_def Let_def step_defs
  by (simp split: sum.splits option.splits)

lemma createAndSaveMaterial_saved:
  assumes "Call_MaterialRepo_Save m \<in>
     set (snd (createAndSaveMaterial s d h name price cur mt q unit expDate n pb ie))"
  shows "\<exists>m0. CreateMaterial d name price cur mt (to_float32 h q) unit = Inr m0 \<and>
     m = m0\<lparr>ExpirationDate := expDate, Notes := n, ProducedBy := pb, IsExpense := ie\<rparr>"
  using assms unfolding createAndSaveMaterial_def Let_def step_defs
  by (auto split: sum.splits option.splits)

lemma createAndSaveMaterial_answer:
  assumes "fst (createAndSaveMaterial s d h name price cur mt q unit expDate n pb ie)
      = Inr (JSON status (MaterialData v)) \<or>
     fst (createAndSaveMaterial s d h name price cur mt q unit expDate n pb ie)
      = Inl (JSON status (MaterialData v))"
  shows "\<exists>m. v = MapToMaterial h m \<and> Call_MaterialRepo_Save m \<in>
     set (snd (createAndSaveMaterial s d h name price cur mt q unit expDate n pb ie))"
  using assms unfolding createAndSaveMaterial_def Let_def step_defs
  by (auto split: sum.splits option.splits)

text \<open>The handler as its three blocks.\<close>

lemma SaveMaterial_validated:
  assumes "validateMaterialInput h (FormValue c ''quantity'') (FormValue c ''expiration_date'')
           (FormValue c ''notes'') (FormValue c ''produced_by'') (FormValue c ''is_expense'') =
         proceed (q, expDate, n, pb, ie)"
  shows "SaveMaterial s d h c = handler
     (andThen (resolveMaterialType d (Param c ''type'') (FormValue c ''plant_type'')
                 (FormValue c ''chemical_type'') (FormValue c ''container_type''))
        (\<lambda>mt. createAndSaveMaterial s d h (FormValue c ''name'') (FormValue c ''price_per_unit'')
             (FormValue c ''currency_code'') mt q (FormValue c ''quantity_unit'') expDate n pb ie))"
  unfolding SaveMaterial_def Let_def assms by (simp add: step_defs)

lemma SaveMaterial_not_validated:
  assumes "validateMaterialInput h (FormValue c ''quantity'') (FormValue c ''expiration_date'')
           (FormValue c ''notes'') (FormValue c ''produced_by'') (FormValue c ''is_expense'') =
         respond r"
  shows "SaveMaterial s d h c = (r, [])"
  unfolding SaveMaterial_def Let_def assms by (simp add: step_defs)

lemma validateMaterialInput_outcome:
  "(\<exists>kind field. validateMaterialInput h quantity expirationDate notes producedBy isExpense =
       respond (ErrorResponse (RequestValidationError kind field))) \<or>
   (\<exists>q expDate. validateMaterialInput h quantity expirationDate notes producedBy isExpense =
       proceed (q, expDate, if notes = '''' then None else Some notes,
                if producedBy = '''' then None else Some producedBy,
                if isExpense = ''true'' then Some True else None) \<and>
       strconv_ParseFloat h quantity = Inr q \<and>
       (if expirationDate = '''' then expDate = None
        else \<exists>tp. time_Parse h ''2006-01-02'' expirationDate = Inr tp \<and> expDate = Some tp))"
  unfolding validateMaterialInput_cases
  by (auto split: sum.splits)

lemma SaveMaterial_saved:
  assumes "Call_MaterialRepo_Save m \<in> set (snd (SaveMaterial s d h c))"
  shows "\<exists>q expDate mt m0.
     strconv_ParseFloat h (FormValue c ''quantity'') = Inr q \<and>
     (if FormValue c ''expiration_date'' = '''' then expDate = None
      else \<exists>tp. time_Parse h ''2006-01-02'' (FormValue c ''expiration_date'') = Inr tp \<and>
                expDate = Some tp) \<and>
     CreateMaterial d (FormValue c ''name'') (FormValue c ''price_per_unit'')
       (FormValue c ''currency_code'') mt (to_float32 h q) (FormValue c ''quantity_unit'') = Inr m0 \<and>
     m = m0\<lparr>ExpirationDate := expDate,
            Notes := (if FormValue c ''notes'' = '''' then None else Some (FormValue c ''notes'')),
            ProducedBy := (if FormValue c ''produced_by'' = '''' then None
                           else Some (FormValue c ''produced_by'')),
            IsExpense := (if FormValue c ''is_expense'' = ''true'' then Some True else None)\<rparr>"
proof -
  let ?v = "validateMaterialInput h (FormValue c ''quantity'') (FormValue c ''expiration_date'')
           (FormValue c ''notes'') (FormValue c ''produced_by'') (FormValue c ''is_expense'')"
  let ?n = "if FormValue c ''notes'' = '''' then None else Some (FormValue c ''notes'')"
  let ?pb = "if FormValue c ''produced_by'' = '''' then None else Some (FormValue c ''produced_by'')"
  let ?ie = "if FormValue c ''is_expense'' = ''true'' then Some True else None"
  from validateMaterialInput_outcome [of h "FormValue c ''quantity''" "FormValue c ''expiration_date''"
      "FormValue c ''notes''" "FormValue c ''produced_by''" "FormValue c ''is_expense''"]
  consider (failed) r where "?v = respond r"
    | (passed) q expDate where "?v = proceed (q, expDate, ?n, ?pb, ?ie)"
        "strconv_ParseFloat h (FormValue c ''quantity'') = Inr q"
        "if FormValue c ''expiration_date'' = '''' then expDate = None
         else \<exists>tp. time_Parse h ''2006-01-02'' (FormValue c ''expiration_date'') = Inr tp \<and>
                expDate = Some tp"
    by blast
  then show ?thesis
  proof cases
    case failed
    then show ?thesis using assms by (simp add: SaveMaterial_not_validated)
  next
    case passed
    let ?r = "resolveMaterialType d (Param c ''type'') (FormValue c ''plant_type'')
                 (FormValue c ''chemical_type'') (FormValue c ''container_type'')"
    obtain x t where r: "?r = (x, t)" by (cases ?r)
    have nt: "Call_MaterialRepo_Save m \<notin> set t"
      using resolveMaterialType_trace [of "Call_MaterialRepo_Save m" d "Param c ''type''"
        "FormValue c ''plant_type''" "FormValue c ''chemical_type''" "FormValue c ''container_type''"]
      by (auto simp: r)
    show ?thesis
    proof (cases x)
      case (Inl a)
      then show ?thesis using assms nt by (simp add: SaveMaterial_validated [OF passed(1)] r)
    next
      case (Inr mt)
      then have "Call_MaterialRepo_Save m \<in> set (snd (createAndSaveMaterial s d h (FormValue c ''name'')
          (FormValue c ''price_per_unit'') (FormValue c ''currency_code'') mt q
          (FormValue c ''quantity_unit'') expDate ?n ?pb ?ie))"
        using assms nt by (simp add: SaveMaterial_validated [OF passed(1)] r)
      from createAndSaveMaterial_saved [OF this] passed(2,3) show ?thesis by blast
    qed
  qed
qed

lemma resolveMaterialType_response:
  "fst (resolveMaterialType d p a b c) = Inl r \<Longrightarrow> \<exists>e. r = ErrorResponse e"
  unfolding resolveMaterialType_def Let_def step_defs
  by (auto split: if_splits sum.splits)

lemma SaveMaterial_answer:
  assumes "fst (SaveMaterial s d h c) = JSON status (MaterialData v)"
  shows "\<exists>m. v = MapToMaterial h m \<and> Call_MaterialRepo_Save m \<in> set (snd (SaveMaterial s d h c))"
proof -
  let ?v = "validateMaterialInput h (FormValue c ''quantity'') (FormValue c ''expiration_date'')
           (FormValue c ''notes'') (FormValue c ''produced_by'') (FormValue c ''is_expense'')"
  from validateMaterialInput_outcome [of h "FormValue c ''quantity''" "FormValue c ''expiration_date''"
      "FormValue c ''notes''" "FormValue c ''produced_by''" "FormValue c ''is_expense''"]
  consider (failed) kind field where "?v = respond (ErrorResponse (RequestValidationError kind field))"
    | (passed) q expDate n pb ie where "?v = proceed (q, expDate, n, pb, ie)"
    by blast
  then show ?thesis
  proof cases
    case failed
    then show ?thesis using assms by (simp add: SaveMaterial_not_validated)
  next
    case passed
    let ?r = "resolveMaterialType d (Param c ''type'') (FormValue c ''plant_type'')
                 (FormValue c ''chemical_type'') (FormValue c ''container_type'')"
    obtain x t where r: "?r = (x, t)" by (cases ?r)
    show ?thesis
    proof (cases x)
      case (Inl a)
      with resolveMaterialType_response [of d "Param c ''type''" "FormValue c ''plant_type''"
        "FormValue c ''chemical_type''" "FormValue c ''container_type''" a] r
      obtain e where "a = ErrorResponse e" by auto
      then show ?thesis using assms Inl by (simp add: SaveMaterial_validated [OF passed] r)
    next
      case (Inr mt)
      let ?k = "createAndSaveMaterial s d h (FormValue c ''name'')
          (FormValue c ''price_per_unit'') (FormValue c ''currency_code'') mt q
          (FormValue c ''quantity_unit'') expDate n pb ie"
      have eq: "SaveMaterial s d h c = handler (fst ?k, t @ snd ?k)"
        by (simp add: SaveMaterial_validated [OF passed] r Inr)
      have "fst ?k = Inr (JSON status (MaterialData v)) \<or> fst ?k = Inl (JSON status (MaterialData v))"
        using assms unfolding eq by (cases "fst ?k") simp_all
      from createAndSaveMaterial_answer [OF this] show ?thesis
        unfolding eq by auto
    qed
  qed
qed

lemmas example_defs =
  exampleServer_def memoryServer_def exampleDomain_def exampleHelpers_def exampleParseFloat_def
  exampleParseDate_def materialRequest_def request_def materialForm_def lettuce_def
  PlantType_zero_def StatusOK_def

lemmas SaveMaterial_defs =
  SaveMaterial_def validateMaterialInput_cases resolveMaterialType_def category_codes_lower
  GetPlantType_def createAndSaveMaterial_def Let_def step_defs

lemma example_seed_run:
  "SaveMaterial (exampleServer None) exampleDomain exampleHelpers (materialRequest ''seed'' []) =
    (JSON StatusOK (MaterialData (MaterialView lettuce)),
     [Call_CreateMaterialTypeSeed ''vegetable'',
      Call_CreateMaterial ''Lettuce'' ''3'' ''EUR'' (Some (MaterialTypeSeed ''vegetable'')) 12 ''packets'',
      Call_MaterialRepo_Save lettuce])"
  by (simp add: example_defs SaveMaterial_defs)

lemma example_expense_run:
  "SaveMaterial (exampleServer None) exampleDomain exampleHelpers
     (materialRequest ''seed'' [(''is_expense'', ''true'')]) =
    (JSON StatusOK (MaterialData (MaterialView (lettuce\<lparr>IsExpense := Some True\<rparr>))),
     [Call_CreateMaterialTypeSeed ''vegetable'',
      Call_CreateMaterial ''Lettuce'' ''3'' ''EUR'' (Some (MaterialTypeSeed ''vegetable'')) 12 ''packets'',
      Call_MaterialRepo_Save (lettuce\<lparr>IsExpense := Some True\<rparr>)])"
  by (simp add: example_defs SaveMaterial_defs)

lemma example_bad_quantity_run:
  "SaveMaterial (exampleServer None) exampleDomain exampleHelpers
     (materialRequest ''seed'' [(''plant_type'', ''cactus''), (''quantity'', ''1x'')]) =
    (ErrorResponse (RequestValidationError INVALID_OPTION ''quantity''), [])"
  by (simp add: example_defs SaveMaterial_defs)

text \<open>
  C1. The claim: a request whose category code (the \<^verbatim>\<open>:type\<close> parameter) is none of
  the seven recognized categories fails with \<^verbatim>\<open>INVALID_OPTION\<close> naming the field,
  and \<^verbatim>\<open>CreateMaterial\<close> is never called. What the handler does: the
  \<^verbatim>\<open>switch\<close> has no \<^verbatim>\<open>default\<close> case, so once the validation block has
  passed the handler goes on to the construction with a \<^verbatim>\<open>nil\<close> material type:
  the first call it makes is \<^verbatim>\<open>CreateMaterial\<close> with that \<^verbatim>\<open>nil\<close>, and its
  answer is whatever the construction and the save give.
\<close>

theorem SaveMaterial_unrecognized_category:
  assumes "Param c ''type'' \<notin> {''seed'', ''agrochemical'', ''growing_medium'',
             ''label_and_crop_support'', ''seeding_container'', ''post_harvest_supply'', ''other''}"
    and "validateMaterialInput h (FormValue c ''quantity'') (FormValue c ''expiration_date'')
           (FormValue c ''notes'') (FormValue c ''produced_by'') (FormValue c ''is_expense'') =
         proceed (q, expDate, n, pb, ie)"
  shows "SaveMaterial s d h c =
           handler (createAndSaveMaterial s d h (FormValue c ''name'') (FormValue c ''price_per_unit'')
             (FormValue c ''currency_code'') None q (FormValue c ''quantity_unit'') expDate n pb ie)
         \<and> (\<exists>rest. snd (SaveMaterial s d h c) =
               Call_CreateMaterial (FormValue c ''name'') (FormValue c ''price_per_unit'')
                 (FormValue c ''currency_code'') None (to_float32 h q) (FormValue c ''quantity_unit'')
               # rest)"
proof -
  have eq: "SaveMaterial s d h c =
           handler (createAndSaveMaterial s d h (FormValue c ''name'') (FormValue c ''price_per_unit'')
             (FormValue c ''currency_code'') None q (FormValue c ''quantity_unit'') expDate n pb ie)"
    unfolding SaveMaterial_validated [OF assms(2)] resolveMaterialType_unrecognized [OF assms(1)]
    by (simp add: step_defs)
  show ?thesis
    using createAndSaveMaterial_trace_head [of s d h "FormValue c ''name''"
       "FormValue c ''price_per_unit''" "FormValue c ''currency_code''" None q
       "FormValue c ''quantity_unit''" expDate n pb ie]
    by (simp add: eq)
qed

text \<open>On the instance, category \<^verbatim>\<open>banana\<close> is constructed, saved and answered with
  status 200.\<close>

theorem SaveMaterial_unrecognized_category_witness:
  "Param (materialRequest ''banana'' []) ''type'' \<notin> {''seed'', ''agrochemical'', ''growing_medium'',
      ''label_and_crop_support'', ''seeding_container'', ''post_harvest_supply'', ''other''}
   \<and> validateMaterialInput exampleHelpers ''12'' ''2027-03-01'' ''organic'' ''Bejo'' ''false''
       = proceed (12, Some 20270301, Some ''organic'', Some ''Bejo'', None)
   \<and> SaveMaterial (exampleServer None) exampleDomain exampleHelpers (materialRequest ''banana'' []) =
       (JSON StatusOK (MaterialData (MaterialView (lettuce\<lparr>Type := None\<rparr>))),
        [Call_CreateMaterial ''Lettuce'' ''3'' ''EUR'' None 12 ''packets'',
         Call_MaterialRepo_Save (lettuce\<lparr>Type := None\<rparr>)])"
proof -
  let ?c = "materialRequest ''banana'' []"
  have category: "Param ?c ''type'' \<notin> {''seed'', ''agrochemical'', ''growing_medium'',
      ''label_and_crop_support'', ''seeding_container'', ''post_harvest_supply'', ''other''}"
    by (simp add: materialRequest_def request_def)
  have valid: "validateMaterialInput exampleHelpers (FormValue ?c ''quantity'')
      (FormValue ?c ''expiration_date'') (FormValue ?c ''notes'') (FormValue ?c ''produced_by'')
      (FormValue ?c ''is_expense'') = proceed (12, Some 20270301, Some ''organic'', Some ''Bejo'', None)"
    by (simp add: validateMaterialInput_cases example_defs)
  have form: "FormValue ?c ''quantity'' = ''12''" "FormValue ?c ''expiration_date'' = ''2027-03-01''"
    "FormValue ?c ''notes'' = ''organic''" "FormValue ?c ''produced_by'' = ''Bejo''"
    "FormValue ?c ''is_expense'' = ''false''"
    by (simp_all add: example_defs)
  from SaveMaterial_unrecognized_category [OF category valid, of "exampleServer None" exampleDomain]
  have "SaveMaterial (exampleServer None) exampleDomain exampleHelpers ?c =
       (JSON StatusOK (MaterialData (MaterialView (lettuce\<lparr>Type := None\<rparr>))),
        [Call_CreateMaterial ''Lettuce'' ''3'' ''EUR'' None 12 ''packets'',
         Call_MaterialRepo_Save (lettuce\<lparr>Type := None\<rparr>)])"
    by (simp add: example_defs createAndSaveMaterial_def Let_def step_defs)
  with category valid show ?thesis by (simp only: form) simp
qed

text \<open>
  C6. The claim: every request with category \<^verbatim>\<open>seed\<close> whose \<^verbatim>\<open>plant_type\<close>
  code is not in the plant-type table fails with \<^verbatim>\<open>INVALID_OPTION\<close> on
  \<^verbatim>\<open>plant_type\<close>, constructs no Material and produces no transition record. The
  quantity and the expiration date are validated before the category is looked at: a
  request with an unknown plant type and the quantity \<^verbatim>\<open>1x\<close> fails on
  \<^verbatim>\<open>quantity\<close>.
\<close>

theorem SaveMaterial_seed_unknown_plant_type_counterexample:
  "Param (materialRequest ''seed'' [(''plant_type'', ''cactus''), (''quantity'', ''1x'')]) ''type''
     = ''seed''
   \<and> FormValue (materialRequest ''seed'' [(''plant_type'', ''cactus''), (''quantity'', ''1x'')])
        ''plant_type'' \<notin> PlantType_Code ` set (PlantTypes exampleDomain)
   \<and> SaveMaterial (exampleServer None) exampleDomain exampleHelpers
        (materialRequest ''seed'' [(''plant_type'', ''cactus''), (''quantity'', ''1x'')])
     = (ErrorResponse (RequestValidationError INVALID_OPTION ''quantity''), [])
   \<and> fst (SaveMaterial (exampleServer None) exampleDomain exampleHelpers
        (materialRequest ''seed'' [(''plant_type'', ''cactus''), (''quantity'', ''1x'')]))
     \<noteq> ErrorResponse (RequestValidationError INVALID_OPTION ''plant_type'')"
  by (simp add: example_bad_quantity_run) (simp add: example_defs)

text \<open>
  C6, as the handler has it: for category \<^verbatim>\<open>seed\<close> and a \<^verbatim>\<open>plant_type\<close> code
  that no entry of the plant-type table carries, the handler makes no call at all (nothing
  is constructed, nothing is saved, so no transition record can come to be) and answers a
  validation error; the error is \<^verbatim>\<open>INVALID_OPTION\<close> on \<^verbatim>\<open>plant_type\<close>
  whenever the quantity parses and the expiration date is empty or parses.
\<close>

theorem SaveMaterial_seed_unknown_plant_type:
  assumes "Param c ''type'' = ''seed''"
    and "FormValue c ''plant_type'' \<notin> PlantType_Code ` set (PlantTypes d)"
  shows "snd (SaveMaterial s d h c) = []
    \<and> (\<exists>kind field. fst (SaveMaterial s d h c) = ErrorResponse (RequestValidationError kind field))
    \<and> ((\<exists>q. strconv_ParseFloat h (FormValue c ''quantity'') = Inr q) \<and>
        (FormValue c ''expiration_date'' = '''' \<or>
         (\<exists>tp. time_Parse h ''2006-01-02'' (FormValue c ''expiration_date'') = Inr tp))
       \<longrightarrow> fst (SaveMaterial s d h c) =
             ErrorResponse (RequestValidationError INVALID_OPTION ''plant_type''))"
  unfolding SaveMaterial_def Let_def validateMaterialInput_cases
    resolveMaterialType_seed_not_found [OF assms]
  by (auto simp: step_defs split: sum.splits)

theorem SaveMaterial_seed_unknown_plant_type_witness:
  "Param (materialRequest ''seed'' [(''plant_type'', ''cactus'')]) ''type'' = ''seed''
   \<and> FormValue (materialRequest ''seed'' [(''plant_type'', ''cactus'')]) ''plant_type''
        \<notin> PlantType_Code ` set (PlantTypes exampleDomain)
   \<and> SaveMaterial (exampleServer None) exampleDomain exampleHelpers
        (materialRequest ''seed'' [(''plant_type'', ''cactus'')])
     = (ErrorResponse (RequestValidationError INVALID_OPTION ''plant_type''), [])"
proof -
  let ?c = "materialRequest ''seed'' [(''plant_type'', ''cactus'')]"
  have category: "Param ?c ''type'' = ''seed''"
    by (simp add: example_defs)
  have unknown: "FormValue ?c ''plant_type'' \<notin> PlantType_Code ` set (PlantTypes exampleDomain)"
    by (simp add: example_defs)
  have quantity: "\<exists>q. strconv_ParseFloat exampleHelpers (FormValue ?c ''quantity'') = Inr q"
    by (simp add: example_defs)
  have date: "\<exists>tp. time_Parse exampleHelpers ''2006-01-02'' (FormValue ?c ''expiration_date'') = Inr tp"
    by (simp add: example_defs)
  from SaveMaterial_seed_unknown_plant_type [OF category unknown, of "exampleServer None" exampleHelpers]
    quantity date
  have "snd (SaveMaterial (exampleServer None) exampleDomain exampleHelpers ?c) = []"
    and "fst (SaveMaterial (exampleServer None) exampleDomain exampleHelpers ?c) =
         ErrorResponse (RequestValidationError INVALID_OPTION ''plant_type'')"
    by blast+
  then have "SaveMaterial (exampleServer None) exampleDomain exampleHelpers ?c
     = (ErrorResponse (RequestValidationError INVALID_OPTION ''plant_type''), [])"
    by (simp add: prod_eq_iff)
  with category unknown show ?thesis by blast
qed

text \<open>
  C4. The claim: each of the four optional fields is set on the Material if and only if
  its raw input is non-empty, and a malformed expiration date fails with
  \<^verbatim>\<open>PARSE_FAILED\<close>. For \<^verbatim>\<open>is_expense\<close> the handler asks more than
  non-emptiness: the input \<^verbatim>\<open>false\<close> is not empty and leaves \<^verbatim>\<open>IsExpense\<close>
  at \<^verbatim>\<open>nil\<close>.
\<close>

theorem SaveMaterial_optional_fields_counterexample:
  "FormValue (materialRequest ''seed'' []) ''is_expense'' = ''false''
   \<and> FormValue (materialRequest ''seed'' []) ''is_expense'' \<noteq> ''''
   \<and> SaveMaterial (exampleServer None) exampleDomain exampleHelpers (materialRequest ''seed'' []) =
       (JSON StatusOK (MaterialData (MaterialView lettuce)),
        [Call_CreateMaterialTypeSeed ''vegetable'',
         Call_CreateMaterial ''Lettuce'' ''3'' ''EUR'' (Some (MaterialTypeSeed ''vegetable'')) 12
           ''packets'',
         Call_MaterialRepo_Save lettuce])
   \<and> IsExpense lettuce = None"
  by (simp add: example_seed_run) (simp add: example_defs)

text \<open>
  C4, as the handler has it: a Material that is saved is the one \<^verbatim>\<open>CreateMaterial\<close>
  returned with the four optional fields assigned; the expiration date, the notes and
  \<^verbatim>\<open>ProducedBy\<close> are set exactly when their input is non-empty (the date to the
  parsed date), and \<^verbatim>\<open>IsExpense\<close> is set, to true, exactly when the input is the
  text \<^verbatim>\<open>true\<close>. When the quantity parses, a non-empty expiration date that
  \<^verbatim>\<open>time.Parse\<close> rejects makes the handler answer \<^verbatim>\<open>PARSE_FAILED\<close> on
  \<^verbatim>\<open>expiration_date\<close> before any call is made.
\<close>

theorem SaveMaterial_optional_fields:
  "(\<forall>m. Call_MaterialRepo_Save m \<in> set (snd (SaveMaterial s d h c)) \<longrightarrow>
      (\<exists>m0 mt q. CreateMaterial d (FormValue c ''name'') (FormValue c ''price_per_unit'')
           (FormValue c ''currency_code'') mt (to_float32 h q) (FormValue c ''quantity_unit'') = Inr m0
         \<and> m = m0\<lparr>ExpirationDate := ExpirationDate m, Notes := Notes m,
                    ProducedBy := ProducedBy m, IsExpense := IsExpense m\<rparr>)
      \<and> (FormValue c ''expiration_date'' = '''' \<and> ExpirationDate m = None
         \<or> FormValue c ''expiration_date'' \<noteq> '''' \<and>
            (\<exists>tp. time_Parse h ''2006-01-02'' (FormValue c ''expiration_date'') = Inr tp
                  \<and> ExpirationDate m = Some tp))
      \<and> Notes m = (if FormValue c ''notes'' = '''' then None else Some (FormValue c ''notes''))
      \<and> ProducedBy m = (if FormValue c ''produced_by'' = '''' then None
                         else Some (FormValue c ''produced_by''))
      \<and> IsExpense m = (if FormValue c ''is_expense'' = ''true'' then Some True else None))
   \<and> (\<forall>q err. strconv_ParseFloat h (FormValue c ''quantity'') = Inr q
         \<and> FormValue c ''expiration_date'' \<noteq> ''''
         \<and> time_Parse h ''2006-01-02'' (FormValue c ''expiration_date'') = Inl err
       \<longrightarrow> SaveMaterial s d h c =
             (ErrorResponse (RequestValidationError PARSE_FAILED ''expiration_date''), []))"
proof (intro conjI allI impI)
  fix m assume saved: "Call_MaterialRepo_Save m \<in> set (snd (SaveMaterial s d h c))"
  from SaveMaterial_saved [OF saved] obtain q expDate mt m0 where
    create: "CreateMaterial d (FormValue c ''name'') (FormValue c ''price_per_unit'')
       (FormValue c ''currency_code'') mt (to_float32 h q) (FormValue c ''quantity_unit'') = Inr m0"
    and date: "if FormValue c ''expiration_date'' = '''' then expDate = None
      else \<exists>tp. time_Parse h ''2006-01-02'' (FormValue c ''expiration_date'') = Inr tp \<and>
                expDate = Some tp"
    and m: "m = m0\<lparr>ExpirationDate := expDate,
            Notes := (if FormValue c ''notes'' = '''' then None else Some (FormValue c ''notes'')),
            ProducedBy := (if FormValue c ''produced_by'' = '''' then None
                           else Some (FormValue c ''produced_by'')),
            IsExpense := (if FormValue c ''is_expense'' = ''true'' then Some True else None)\<rparr>"
    by blast
  have "m = m0\<lparr>ExpirationDate := ExpirationDate m, Notes := Notes m,
                    ProducedBy := ProducedBy m, IsExpense := IsExpense m\<rparr>"
    by (simp add: m)
  with create show "\<exists>m0 mt q. CreateMaterial d (FormValue c ''name'') (FormValue c ''price_per_unit'')
           (FormValue c ''currency_code'') mt (to_float32 h q) (FormValue c ''quantity_unit'') = Inr m0
         \<and> m = m0\<lparr>ExpirationDate := ExpirationDate m, Notes := Notes m,
                    ProducedBy := ProducedBy m, IsExpense := IsExpense m\<rparr>"
    by blast
  show "FormValue c ''expiration_date'' = '''' \<and> ExpirationDate m = None
         \<or> FormValue c ''expiration_date'' \<noteq> '''' \<and>
            (\<exists>tp. time_Parse h ''2006-01-02'' (FormValue c ''expiration_date'') = Inr tp
                  \<and> ExpirationDate m = Some tp)"
    using date by (auto simp: m split: if_splits)
  show "Notes m = (if FormValue c ''notes'' = '''' then None else Some (FormValue c ''notes''))"
    by (simp add: m)
  show "ProducedBy m = (if FormValue c ''produced_by'' = '''' then None
                         else Some (FormValue c ''produced_by''))"
    by (simp add: m)
  show "IsExpense m = (if FormValue c ''is_expense'' = ''true'' then Some True else None)"
    by (simp add: m)
next
  fix q err
  assume "strconv_ParseFloat h (FormValue c ''quantity'') = Inr q
         \<and> FormValue c ''expiration_date'' \<noteq> ''''
         \<and> time_Parse h ''2006-01-02'' (FormValue c ''expiration_date'') = Inl err"
  then show "SaveMaterial s d h c =
             (ErrorResponse (RequestValidationError PARSE_FAILED ''expiration_date''), [])"
    by (simp add: SaveMaterial_def Let_def validateMaterialInput_cases step_defs)
qed

theorem SaveMaterial_optional_fields_witness:
  "Call_MaterialRepo_Save lettuce \<in> set (snd (SaveMaterial (exampleServer None) exampleDomain
       exampleHelpers (materialRequest ''seed'' [])))
   \<and> FormValue (materialRequest ''seed'' []) ''notes'' = ''organic''
   \<and> Notes lettuce = Some ''organic''
   \<and> FormValue (materialRequest ''seed'' []) ''is_expense'' = ''false''
   \<and> IsExpense lettuce = None
   \<and> strconv_ParseFloat exampleHelpers
        (FormValue (materialRequest ''seed'' [(''expiration_date'', ''next week'')]) ''quantity'')
      = Inr 12
   \<and> time_Parse exampleHelpers ''2006-01-02''
        (FormValue (materialRequest ''seed'' [(''expiration_date'', ''next week'')])
           ''expiration_date'')
      = Inl (OtherError ''parsing time: cannot parse'')
   \<and> SaveMaterial (exampleServer None) exampleDomain exampleHelpers
        (materialRequest ''seed'' [(''expiration_date'', ''next week'')])
      = (ErrorResponse (RequestValidationError PARSE_FAILED ''expiration_date''), [])"
proof -
  let ?c = "materialRequest ''seed'' []"
  let ?c' = "materialRequest ''seed'' [(''expiration_date'', ''next week'')]"
  have saved: "Call_MaterialRepo_Save lettuce \<in> set (snd (SaveMaterial (exampleServer None)
      exampleDomain exampleHelpers ?c))"
    by (simp add: example_seed_run)
  have form: "FormValue ?c ''notes'' = ''organic''" "FormValue ?c ''is_expense'' = ''false''"
    by (simp_all add: example_defs)
  have quantity: "strconv_ParseFloat exampleHelpers (FormValue ?c' ''quantity'') = Inr 12"
    by (simp add: example_defs)
  have date: "FormValue ?c' ''expiration_date'' \<noteq> ''''"
    "time_Parse exampleHelpers ''2006-01-02'' (FormValue ?c' ''expiration_date'')
      = Inl (OtherError ''parsing time: cannot parse'')"
    by (simp_all add: example_defs)
  from SaveMaterial_optional_fields [of "exampleServer None" exampleDomain exampleHelpers ?c] saved
  have fields: "Notes lettuce = (if FormValue ?c ''notes'' = '''' then None
      else Some (FormValue ?c ''notes''))"
    "IsExpense lettuce = (if FormValue ?c ''is_expense'' = ''true'' then Some True else None)"
    by blast+
  from SaveMaterial_optional_fields [of "exampleServer None" exampleDomain exampleHelpers ?c']
    quantity date
  have "SaveMaterial (exampleServer None) exampleDomain exampleHelpers ?c'
      = (ErrorResponse (RequestValidationError PARSE_FAILED ''expiration_date''), [])"
    by blast
  with saved form fields quantity date(2) show ?thesis by simp
qed

text \<open>
  C10. For every request, a Material the handler saves has \<^verbatim>\<open>IsExpense\<close> either
  \<^verbatim>\<open>nil\<close> or true: it is set exactly when the raw \<^verbatim>\<open>is_expense\<close> input is the
  text \<^verbatim>\<open>true\<close>, so it is never false; and a Material the handler answers with is
  the view of one it saved.
\<close>

theorem SaveMaterial_IsExpense:
  "(\<forall>m. Call_MaterialRepo_Save m \<in> set (snd (SaveMaterial s d h c)) \<longrightarrow>
       IsExpense m = (if FormValue c ''is_expense'' = ''true'' then Some True else None)
       \<and> IsExpense m \<noteq> Some False)
   \<and> (\<forall>status v. fst (SaveMaterial s d h c) = JSON status (MaterialData v) \<longrightarrow>
         (\<exists>m. v = MapToMaterial h m \<and>
              Call_MaterialRepo_Save m \<in> set (snd (SaveMaterial s d h c))))"
proof (intro conjI allI impI)
  fix m assume "Call_MaterialRepo_Save m \<in> set (snd (SaveMaterial s d h c))"
  from SaveMaterial_saved [OF this]
  show "IsExpense m = (if FormValue c ''is_expense'' = ''true'' then Some True else None)"
    and "IsExpense m \<noteq> Some False"
    by (auto split: if_splits)
next
  fix status v assume "fst (SaveMaterial s d h c) = JSON status (MaterialData v)"
  then show "\<exists>m. v = MapToMaterial h m \<and>
              Call_MaterialRepo_Save m \<in> set (snd (SaveMaterial s d h c))"
    by (rule SaveMaterial_answer)
qed

theorem SaveMaterial_IsExpense_witness:
  "Call_MaterialRepo_Save (lettuce\<lparr>IsExpense := Some True\<rparr>) \<in>
     set (snd (SaveMaterial (exampleServer None) exampleDomain exampleHelpers
       (materialRequest ''seed'' [(''is_expense'', ''true'')])))
   \<and> FormValue (materialRequest ''seed'' [(''is_expense'', ''true'')]) ''is_expense'' = ''true''
   \<and> IsExpense (lettuce\<lparr>IsExpense := Some True\<rparr>) = Some True
   \<and> Call_MaterialRepo_Save lettuce \<in>
     set (snd (SaveMaterial (exampleServer None) exampleDomain exampleHelpers
       (materialRequest ''seed'' [])))
   \<and> FormValue (materialRequest ''seed'' []) ''is_expense'' = ''false''
   \<and> IsExpense lettuce = None"
proof -
  let ?c = "materialRequest ''seed'' [(''is_expense'', ''true'')]"
  let ?c' = "materialRequest ''seed'' []"
  have saved: "Call_MaterialRepo_Save (lettuce\<lparr>IsExpense := Some True\<rparr>) \<in>
     set (snd (SaveMaterial (exampleServer None) exampleDomain exampleHelpers ?c))"
    by (simp add: example_expense_run)
  have saved': "Call_MaterialRepo_Save lettuce \<in>
     set (snd (SaveMaterial (exampleServer None) exampleDomain exampleHelpers ?c'))"
    by (simp add: example_seed_run)
  have form: "FormValue ?c ''is_expense'' = ''true''" "FormValue ?c' ''is_expense'' = ''false''"
    by (simp_all add: example_defs)
  from SaveMaterial_IsExpense [of "exampleServer None" exampleDomain exampleHelpers ?c] saved
  have one: "IsExpense (lettuce\<lparr>IsExpense := Some True\<rparr>) =
      (if FormValue ?c ''is_expense'' = ''true'' then Some True else None)"
    by blast
  from SaveMaterial_IsExpense [of "exampleServer None" exampleDomain exampleHelpers ?c'] saved'
  have two: "IsExpense lettuce =
      (if FormValue ?c' ''is_expense'' = ''true'' then Some True else None)"
    by blast
  from saved saved' form one two show ?thesis by simp
qed

section \<open>GetAreaPhotos\<close>

text \<open>
  C8. Once the farm and the area of the request are found, \<^verbatim>\<open>GetAreaPhotos\<close> looks
  at the photo of the area only: when the photo's file name is empty it answers
  \<^verbatim>\<open>NOT_FOUND\<close> on \<^verbatim>\<open>photo\<close> and serves no file; otherwise it serves the
  stored file, the upload path joined with the file name. The only calls it makes are the
  two lookups.
\<close>

theorem GetAreaPhotos_photo:
  assumes "Error (FarmRepo_FindByID s (Param c ''farm_id'')) = None"
    and "Result (FarmRepo_FindByID s (Param c ''farm_id'')) = FarmValue farm"
    and "Error (AreaRepo_FindByID s (Param c ''area_id'')) = None"
    and "Result (AreaRepo_FindByID s (Param c ''area_id'')) = AreaValue area"
  shows "GetAreaPhotos s h c =
    (if Filename (Photo area) = ''''
     then ErrorResponse (RequestValidationError NOT_FOUND ''photo'')
     else FileResponse (stringhelper_Join h [UploadPathArea h, ''/'', Filename (Photo area)]),
     [Call_FarmRepo_FindByID (Param c ''farm_id''), Call_AreaRepo_FindByID (Param c ''area_id'')])"
  using assms
  unfolding GetAreaPhotos_def Let_def checkError_def assertFarm_def assertArea_def step_defs
  by simp

theorem GetAreaPhotos_photo_witness:
  "GetAreaPhotos (exampleServer None) exampleHelpers (photoRequest ''area-1'') =
     (ErrorResponse (RequestValidationError NOT_FOUND ''photo''),
      [Call_FarmRepo_FindByID ''farm-1'', Call_AreaRepo_FindByID ''area-1''])
   \<and> Filename (Photo area1) = ''''
   \<and> GetAreaPhotos (exampleServer None) exampleHelpers (photoRequest ''area-2'') =
     (FileResponse ''uploads/areas/plot.jpg'',
      [Call_FarmRepo_FindByID ''farm-1'', Call_AreaRepo_FindByID ''area-2''])
   \<and> Filename (Photo area2) = ''plot.jpg''"
proof -
  let ?s = "exampleServer None"
  have farm: "Error (FarmRepo_FindByID ?s (Param (photoRequest a) ''farm_id'')) = None"
    "Result (FarmRepo_FindByID ?s (Param (photoRequest a) ''farm_id'')) = FarmValue farm1" for a
    by (simp_all add: example_defs photoRequest_def farm1_def)
  have a1: "Error (AreaRepo_FindByID ?s (Param (photoRequest ''area-1'') ''area_id'')) = None"
    "Result (AreaRepo_FindByID ?s (Param (photoRequest ''area-1'') ''area_id'')) = AreaValue area1"
    by (simp_all add: example_defs photoRequest_def area1_def area2_def)
  have a2: "Error (AreaRepo_FindByID ?s (Param (photoRequest ''area-2'') ''area_id'')) = None"
    "Result (AreaRepo_FindByID ?s (Param (photoRequest ''area-2'') ''area_id'')) = AreaValue area2"
    by (simp_all add: example_defs photoRequest_def area1_def area2_def)
  have p1: "Filename (Photo area1) = ''''" by (simp add: area1_def noPhoto_def)
  have p2: "Filename (Photo area2) = ''plot.jpg''" by (simp add: area2_def)
  from GetAreaPhotos_photo [OF farm a1, of exampleHelpers] GetAreaPhotos_photo [OF farm a2, of exampleHelpers]
    p1 p2
  show ?thesis
    by (simp add: exampleHelpers_def photoRequest_def request_def)
qed

section \<open>The transition records\<close>

lemma inj_record_of: "inj record_of"
proof (rule injI)
  fix x y assume "record_of x = record_of y"
  then show "x = y" by (cases x; cases y) simp_all
qed

lemma surj_record_of: "surj record_of"
proof (rule surjI)
  fix r show "record_of (case r of MaterialCreated \<Rightarrow> Creation
      | MaterialNameChanged \<Rightarrow> NameChanged | MaterialPriceChanged \<Rightarrow> PriceChanged
      | MaterialQuantityChanged \<Rightarrow> QuantityChanged | MaterialTypeChanged \<Rightarrow> TypeChanged
      | MaterialExpirationDateChanged \<Rightarrow> ExpirationChanged
      | MaterialNotesChanged \<Rightarrow> NotesChanged
      | MaterialProducedByChanged \<Rightarrow> ProducedByChanged) = r"
    by (cases r) simp_all
qed

lemma carries_identifier_all: "carries_identifier R"
  by (cases R) (simp_all add: carries_identifier_def Material_fields_def)

lemma carries_new_value_iff:
  assumes "changed_field k = Some f"
  shows "carries_new_value R f \<longleftrightarrow> R = record_of k"
proof -
  from assms have "f = the (changed_field k)" by simp
  then show ?thesis
    using assms
    by (cases k; cases R)
       (simp_all add: carries_new_value_def Material_fields_def new_value_name_def)
qed

lemma carries_initial_value_created:
  "carries_initial_value MaterialCreated f \<longleftrightarrow> f \<in> set initial_fields"
  by (simp add: carries_initial_value_def Material_fields_def initial_fields_def)

lemma initial_fields_Material:
  "set initial_fields = fst ` set Material_fields - {''IsExpense''}"
  by (simp add: Material_fields_def initial_fields_def) (simp add: insert_Diff_if)

lemma carries_all_initial_values:
  assumes "\<forall>f \<in> set initial_fields. carries_initial_value R f"
  shows "R = MaterialCreated"
proof -
  from assms have "carries_initial_value R ''Quantity''" "carries_initial_value R ''Name''"
    by (simp_all add: initial_fields_def)
  then show ?thesis
    by (cases R) (simp_all add: carries_initial_value_def Material_fields_def)
qed

lemma no_field_IsExpense: "map_of (fields R) ''IsExpense'' = None"
  by (cases R) simp_all

text \<open>
  C7. The claim: each of the eight kinds of Material mutation has exactly one record type,
  every record type carries the identifier of the aggregate and the new value of the
  changed field, and the creation record carries all initial field values. The last part
  fails for \<^verbatim>\<open>IsExpense\<close>: it is a field of the Material, \<^verbatim>\<open>SaveMaterial\<close>
  gives it its first value right after the construction (here \<^verbatim>\<open>true\<close>, saved with
  the Material), and \<^verbatim>\<open>MaterialCreated\<close> declares no field for it.
\<close>

theorem material_transition_records_counterexample:
  "Call_MaterialRepo_Save (lettuce\<lparr>IsExpense := Some True\<rparr>)
     \<in> set (snd (SaveMaterial (exampleServer None) exampleDomain exampleHelpers
         (materialRequest ''seed'' [(''is_expense'', ''true'')])))
   \<and> IsExpense (lettuce\<lparr>IsExpense := Some True\<rparr>) = Some True
   \<and> map_of Material_fields ''IsExpense'' = Some (T_pointer T_bool)
   \<and> map_of (fields MaterialCreated) ''IsExpense'' = None
   \<and> \<not> carries_initial_value MaterialCreated ''IsExpense''"
  by (simp add: example_expense_run carries_initial_value_def Material_fields_def)

text \<open>
  C7, as the declarations have it. The kinds of mutation and the declared record types
  correspond one to one. Every record type starts with the identifier of the aggregate.
  For a change of the field \<open>f\<close>, one record type and no other is made of the identifier
  and of one field named after \<open>f\<close> that holds a value of the type of \<open>f\<close>, and it is
  the record type of that kind. The creation record declares, under its name and with its
  type, every field of the Material except \<^verbatim>\<open>IsExpense\<close>, and it is the only record
  type to do so; no record type has a field \<^verbatim>\<open>IsExpense\<close>.
\<close>

theorem material_transition_records:
  "bij record_of
   \<and> (\<forall>R. carries_identifier R)
   \<and> (\<forall>k. (changed_field k = None) = (k = Creation))
   \<and> (\<forall>k f R. changed_field k = Some f \<longrightarrow> (carries_new_value R f \<longleftrightarrow> R = record_of k))
   \<and> (\<forall>f. carries_initial_value (record_of Creation) f
          \<longleftrightarrow> f \<in> fst ` set Material_fields \<and> f \<noteq> ''IsExpense'')
   \<and> (\<forall>R. (\<forall>f \<in> fst ` set Material_fields. f \<noteq> ''IsExpense'' \<longrightarrow> carries_initial_value R f)
          \<longrightarrow> R = record_of Creation)
   \<and> (\<forall>R. map_of (fields R) ''IsExpense'' = None)"
proof (intro conjI allI impI)
  show "bij record_of" by (simp add: bij_def inj_record_of surj_record_of)
  show "carries_identifier R" for R by (rule carries_identifier_all)
  show "(changed_field k = None) = (k = Creation)" for k by (cases k) simp_all
  show "carries_new_value R f \<longleftrightarrow> R = record_of k" if "changed_field k = Some f" for k f R
    using that by (rule carries_new_value_iff)
  show "carries_initial_value (record_of Creation) f
      \<longleftrightarrow> f \<in> fst ` set Material_fields \<and> f \<noteq> ''IsExpense''" for f
    using initial_fields_Material by (simp add: carries_initial_value_created)
  show "R = record_of Creation"
    if "\<forall>f \<in> fst ` set Material_fields. f \<noteq> ''IsExpense'' \<longrightarrow> carries_initial_value R f" for R
  proof -
    from that initial_fields_Material have "\<forall>f \<in> set initial_fields. carries_initial_value R f"
      by blast
    then show ?thesis by (simp add: carries_all_initial_values)
  qed
  show "map_of (fields R) ''IsExpense'' = None" for R by (rule no_field_IsExpense)
qed

theorem material_transition_records_witness:
  "changed_field NotesChanged = Some ''Notes''
   \<and> record_of NotesChanged = MaterialNotesChanged
   \<and> carries_new_value MaterialNotesChanged ''Notes''
   \<and> \<not> carries_new_value MaterialNameChanged ''Notes''
   \<and> \<not> carries_new_value MaterialProducedByChanged ''Notes''
   \<and> changed_field PriceChanged = Some ''PricePerUnit''
   \<and> carries_new_value MaterialPriceChanged ''PricePerUnit''
   \<and> ''Notes'' \<in> fst ` set Material_fields
   \<and> carries_initial_value MaterialCreated ''Notes''
   \<and> \<not> carries_initial_value MaterialCreated ''IsExpense''
   \<and> \<not> carries_initial_value MaterialNotesChanged ''Name''"
proof -
  note inst = material_transition_records
  have notes_kind: "changed_field NotesChanged = Some ''Notes''"
    and price: "changed_field PriceChanged = Some ''PricePerUnit''"
    by simp_all
  from inst notes_kind have "carries_new_value R ''Notes'' \<longleftrightarrow> R = record_of NotesChanged" for R
    by blast
  then have one: "carries_new_value MaterialNotesChanged ''Notes''"
    "\<not> carries_new_value MaterialNameChanged ''Notes''"
    "\<not> carries_new_value MaterialProducedByChanged ''Notes''"
    by simp_all
  from inst price have "carries_new_value R ''PricePerUnit'' \<longleftrightarrow> R = record_of PriceChanged" for R
    by blast
  then have two: "carries_new_value MaterialPriceChanged ''PricePerUnit''" by simp
  have mem: "''Notes'' \<in> fst ` set Material_fields" by (simp add: Material_fields_def)
  from inst have created: "carries_initial_value (record_of Creation) f
      \<longleftrightarrow> f \<in> fst ` set Material_fields \<and> f \<noteq> ''IsExpense''" for f
    by blast
  from created [of "''Notes''"] mem have three: "carries_initial_value MaterialCreated ''Notes''"
    by simp
  from created [of "''IsExpense''"] have four: "\<not> carries_initial_value MaterialCreated ''IsExpense''"
    by simp
  have five: "\<not> carries_initial_value MaterialNotesChanged ''Name''"
    by (simp add: carries_initial_value_def Material_fields_def)
  from notes_kind price one two mem three four five show ?thesis by simp
qed

section \<open>The note handlers\<close>

lemma synced_before_save_no_save:
  "\<forall>e \<in> set t. \<not> is_save e \<Longrightarrow> synced_before_save t"
  by (simp add: synced_before_save_def)

lemma synced_before_save_after_sync:
  assumes "\<not> is_save a" "\<not> is_save b" "is_note_mutation m" "is_sync sy"
  shows "synced_before_save (a # b # m # sy # rest)"
  unfolding synced_before_save_def
proof (intro allI impI)
  fix k
  let ?t = "a # b # m # sy # rest"
  assume k: "k < length ?t" and s: "is_save (?t ! k)"
  have nm: "\<not> is_save m" using assms(3) by (cases m) simp_all
  have ns: "\<not> is_save sy" using assms(4) by (cases sy) simp_all
  have "4 \<le> k"
  proof (rule ccontr)
    assume "\<not> 4 \<le> k"
    then have "k = 0 \<or> k = 1 \<or> k = 2 \<or> k = 3" by arith
    then show False using s assms nm ns by (auto simp: nth_Cons')
  qed
  then have "3 < k" by simp
  moreover have "is_sync (?t ! 3)" using assms by simp
  moreover have "(2::nat) < 3 \<and> is_note_mutation (?t ! 2)" using assms by simp
  ultimately show "\<exists>j<k. is_sync (?t ! j) \<and> (\<exists>i<j. is_note_mutation (?t ! i))"
    by blast
qed

lemma note_trace_synced: "note_trace t \<Longrightarrow> synced_before_save t"
  unfolding note_trace_def
  using synced_before_save_no_save synced_before_save_after_sync by blast

lemmas note_handler_defs =
  Let_def checkError_def assertReservoir_def assertFarm_def assertArea_def orError_def
  saveOrInternalError_def step_defs

lemma SaveReservoirNotes_trace: "note_trace (snd (SaveReservoirNotes s d h c))"
  unfolding SaveReservoirNotes_def note_trace_def note_handler_defs
  by (simp split: option.splits dynamic.splits prod.splits sum.splits)

lemma RemoveReservoirNotes_trace: "note_trace (snd (RemoveReservoirNotes s d h c))"
  unfolding RemoveReservoirNotes_def note_trace_def note_handler_defs
  by (simp split: option.splits dynamic.splits prod.splits sum.splits)

lemma SaveAreaNotes_trace: "note_trace (snd (SaveAreaNotes s d h c))"
  unfolding SaveAreaNotes_def note_trace_def note_handler_defs
  by (simp split: option.splits dynamic.splits prod.splits sum.splits)

lemma RemoveAreaNotes_trace: "note_trace (snd (RemoveAreaNotes s d h c))"
  unfolding RemoveAreaNotes_def note_trace_def note_handler_defs
  by (simp split: option.splits dynamic.splits prod.splits sum.splits)

lemma SaveReservoirNotes_path:
  assumes "found_reservoir s (Param c ''id'') r farm"
    and "FormValue c ''content'' \<noteq> ''''"
    and "ChangeReservoirInformation d farm (Reservoir_AddNewNote d r (FormValue c ''content''))
           = (err, farm')"
  shows "SaveReservoirNotes s d h c =
    (let r' = Reservoir_AddNewNote d r (FormValue c ''content'');
         t = [Call_ReservoirRepo_FindByID (Param c ''id''),
              Call_FarmRepo_FindByID (Reservoir_Farm_UID r),
              Call_Reservoir_AddNewNote r (FormValue c ''content''),
              Call_ChangeReservoirInformation farm r',
              Call_ReservoirRepo_Save r']
     in if ReservoirRepo_Save s r' \<noteq> None then (ErrorResponse internalServerError, t)
        else if FarmRepo_Save s farm' \<noteq> None
        then (ErrorResponse internalServerError, t @ [Call_FarmRepo_Save farm'])
        else (case MapToDetailReservoir h r' of
                Inl e \<Rightarrow> ErrorResponse internalServerError
              | Inr view \<Rightarrow> JSON StatusOK (DetailReservoirData view),
              t @ [Call_FarmRepo_Save farm']))"
  using assms unfolding SaveReservoirNotes_def found_reservoir_def note_handler_defs
  by (simp split: sum.splits)

lemma SaveAreaNotes_path:
  assumes "found_area s (Param c ''id'') a farm"
    and "FormValue c ''content'' \<noteq> ''''"
    and "ChangeAreaInformation d farm (Area_AddNewNote d a (FormValue c ''content''))
           = (err, farm')"
  shows "SaveAreaNotes s d h c =
    (let a' = Area_AddNewNote d a (FormValue c ''content'');
         t = [Call_AreaRepo_FindByID (Param c ''id''),
              Call_FarmRepo_FindByID (Area_Farm_UID a),
              Call_Area_AddNewNote a (FormValue c ''content''),
              Call_ChangeAreaInformation farm a',
              Call_AreaRepo_Save a']
     in if AreaRepo_Save s a' \<noteq> None then (ErrorResponse internalServerError, t)
        else if FarmRepo_Save s farm' \<noteq> None
        then (ErrorResponse internalServerError, t @ [Call_FarmRepo_Save farm'])
        else (case MapToDetailArea h a' of
                Inl e \<Rightarrow> ErrorResponse e
              | Inr view \<Rightarrow> JSON StatusOK (DetailAreaData view),
              t @ [Call_FarmRepo_Save farm']))"
  using assms unfolding SaveAreaNotes_def found_area_def note_handler_defs
  by (simp split: sum.splits)

lemma RemoveReservoirNotes_sync_fails:
  assumes "found_reservoir s (Param c ''reservoir_id'') r farm"
    and "Reservoir_RemoveNote d r (Param c ''note_id'') = Inr r'"
    and "ChangeReservoirInformation d farm r' = (Some e, farm')"
  shows "RemoveReservoirNotes s d h c =
    (ErrorResponse e,
     [Call_ReservoirRepo_FindByID (Param c ''reservoir_id''),
      Call_FarmRepo_FindByID (Reservoir_Farm_UID r),
      Call_Reservoir_RemoveNote r (Param c ''note_id''),
      Call_ChangeReservoirInformation farm r'])"
  using assms unfolding RemoveReservoirNotes_def found_reservoir_def note_handler_defs
  by simp

lemma RemoveAreaNotes_sync_fails:
  assumes "found_area s (Param c ''area_id'') a farm"
    and "Area_RemoveNote d a (Param c ''note_id'') = Inr a'"
    and "ChangeAreaInformation d farm a' = (Some e, farm')"
  shows "RemoveAreaNotes s d h c =
    (ErrorResponse e,
     [Call_AreaRepo_FindByID (Param c ''area_id''),
      Call_FarmRepo_FindByID (Area_Farm_UID a),
      Call_Area_RemoveNote a (Param c ''note_id''),
      Call_ChangeAreaInformation farm a'])"
  using assms unfolding RemoveAreaNotes_def found_area_def note_handler_defs
  by simp

lemma example_found_reservoir:
  "found_reservoir (exampleServer saved) ''reservoir-1'' reservoir1 farm1"
  by (simp add: found_reservoir_def example_defs reservoir1_def farm1_def)

lemma example_found_area:
  "found_area (exampleServer saved) ''area-1'' area1 farm1"
  by (simp add: found_area_def example_defs area1_def area2_def farm1_def)

lemma example_reservoir_sync_fails:
  "ChangeReservoirInformation exampleNotes farm1 r =
     (Some (RequestValidationError NOT_FOUND ''reservoir''), farm1)"
  by (simp add: exampleNotes_def farm1_def)

lemma example_area_sync_fails:
  "ChangeAreaInformation exampleNotes farm1 a =
     (Some (RequestValidationError NOT_FOUND ''area''), farm1)"
  by (simp add: exampleNotes_def farm1_def)

lemma example_add_note_request:
  "Param (addNoteRequest uid content) ''id'' = uid"
  "FormValue (addNoteRequest uid content) ''content'' = content"
  by (simp_all add: addNoteRequest_def request_def)

lemma example_remove_note_request:
  "Param (removeNoteRequest uid noteID) ''reservoir_id'' = uid"
  "Param (removeNoteRequest uid noteID) ''area_id'' = uid"
  "Param (removeNoteRequest uid noteID) ''note_id'' = noteID"
  by (simp_all add: removeNoteRequest_def request_def)

lemma example_add_reservoir_note_run:
  "SaveReservoirNotes (exampleServer saved) exampleNotes exampleHelpers
     (addNoteRequest ''reservoir-1'' ''check the pump'') =
   (let r' = Reservoir_AddNewNote exampleNotes reservoir1 ''check the pump'';
        t = [Call_ReservoirRepo_FindByID ''reservoir-1'', Call_FarmRepo_FindByID ''farm-1'',
             Call_Reservoir_AddNewNote reservoir1 ''check the pump'',
             Call_ChangeReservoirInformation farm1 r', Call_ReservoirRepo_Save r']
    in if saved \<noteq> None then (ErrorResponse internalServerError, t)
       else (JSON StatusOK (DetailReservoirData (DetailReservoir r')),
             t @ [Call_FarmRepo_Save farm1]))"
proof -
  let ?c = "addNoteRequest ''reservoir-1'' ''check the pump''"
  have f: "found_reservoir (exampleServer saved) (Param ?c ''id'') reservoir1 farm1"
    by (simp add: example_add_note_request example_found_reservoir)
  have n: "FormValue ?c ''content'' \<noteq> ''''" by (simp add: example_add_note_request)
  have uid: "Reservoir_Farm_UID reservoir1 = ''farm-1''" by (simp add: reservoir1_def)
  show ?thesis
    unfolding SaveReservoirNotes_path [OF f n example_reservoir_sync_fails]
    by (simp add: example_add_note_request uid Let_def exampleServer_def memoryServer_def
        exampleHelpers_def)
qed

lemma sync_follows_no_mutation:
  "\<forall>e \<in> set t. mutated_child d e = None \<Longrightarrow> sync_follows_mutation d t"
  by (simp add: sync_follows_mutation_def)

lemma sync_follows_after_lookups:
  assumes "mutated_child d a = None" "mutated_child d b = None"
    and "synced_child sy = mutated_child d m" and "mutated_child d sy = None"
    and "\<forall>e \<in> set rest. mutated_child d e = None"
  shows "sync_follows_mutation d (a # b # m # sy # rest)"
  unfolding sync_follows_mutation_def
proof (intro allI impI)
  fix i
  let ?t = "a # b # m # sy # rest"
  assume i: "i < length ?t" and mu: "mutated_child d (?t ! i) \<noteq> None"
  have "i = 2"
  proof (rule ccontr)
    assume "i \<noteq> 2"
    then consider "i = 0" | "i = 1" | "i = 3" | "4 \<le> i" by arith
    then show False
    proof cases
      case 4
      define j where "j = i - 4"
      have ij: "i = Suc (Suc (Suc (Suc j)))" using 4 by (simp add: j_def)
      then have "?t ! i = rest ! j" by simp
      moreover have "j < length rest" using i ij by simp
      ultimately have "?t ! i \<in> set rest" by simp
      with assms(5) have "mutated_child d (?t ! i) = None" by (rule bspec)
      with mu show False by (rule notE)
    qed (use mu assms in simp_all)
  qed
  then show "Suc i < length ?t \<and> synced_child (?t ! Suc i) = mutated_child d (?t ! i)"
    using assms(3) by simp
qed


lemma sync_follows_shape:
  assumes "(\<forall>e \<in> set t. mutated_child d e = None) \<or>
    (\<exists>a b m sy rest. t = a # b # m # sy # rest \<and> mutated_child d a = None \<and>
       mutated_child d b = None \<and> synced_child sy = mutated_child d m \<and>
       mutated_child d sy = None \<and> (\<forall>e \<in> set rest. mutated_child d e = None))"
  shows "sync_follows_mutation d t"
  using assms
proof
  assume "\<forall>e \<in> set t. mutated_child d e = None"
  then show ?thesis by (rule sync_follows_no_mutation)
next
  assume "\<exists>a b m sy rest. t = a # b # m # sy # rest \<and> mutated_child d a = None \<and>
       mutated_child d b = None \<and> synced_child sy = mutated_child d m \<and>
       mutated_child d sy = None \<and> (\<forall>e \<in> set rest. mutated_child d e = None)"
  then obtain a b m sy rest where t: "t = a # b # m # sy # rest"
    and "mutated_child d a = None" "mutated_child d b = None"
    "synced_child sy = mutated_child d m" "mutated_child d sy = None"
    "\<forall>e \<in> set rest. mutated_child d e = None"
    by (elim exE conjE)
  then show ?thesis unfolding t by (intro sync_follows_after_lookups)
qed

lemma SaveReservoirNotes_sync_follows:
  "sync_follows_mutation d (snd (SaveReservoirNotes s d h c))"
proof (rule sync_follows_shape)
  show "(\<forall>e \<in> set (snd (SaveReservoirNotes s d h c)). mutated_child d e = None) \<or>
    (\<exists>a b m sy rest. snd (SaveReservoirNotes s d h c) = a # b # m # sy # rest \<and>
       mutated_child d a = None \<and> mutated_child d b = None \<and>
       synced_child sy = mutated_child d m \<and> mutated_child d sy = None \<and>
       (\<forall>e \<in> set rest. mutated_child d e = None))"
    unfolding SaveReservoirNotes_def note_handler_defs
    by (simp split: option.splits dynamic.splits prod.splits sum.splits)
qed

lemma RemoveReservoirNotes_sync_follows:
  "sync_follows_mutation d (snd (RemoveReservoirNotes s d h c))"
proof (rule sync_follows_shape)
  show "(\<forall>e \<in> set (snd (RemoveReservoirNotes s d h c)). mutated_child d e = None) \<or>
    (\<exists>a b m sy rest. snd (RemoveReservoirNotes s d h c) = a # b # m # sy # rest \<and>
       mutated_child d a = None \<and> mutated_child d b = None \<and>
       synced_child sy = mutated_child d m \<and> mutated_child d sy = None \<and>
       (\<forall>e \<in> set rest. mutated_child d e = None))"
    unfolding RemoveReservoirNotes_def note_handler_defs
    by (simp split: option.splits dynamic.splits prod.splits sum.splits)
qed

lemma SaveAreaNotes_sync_follows:
  "sync_follows_mutation d (snd (SaveAreaNotes s d h c))"
proof (rule sync_follows_shape)
  show "(\<forall>e \<in> set (snd (SaveAreaNotes s d h c)). mutated_child d e = None) \<or>
    (\<exists>a b m sy rest. snd (SaveAreaNotes s d h c) = a # b # m # sy # rest \<and>
       mutated_child d a = None \<and> mutated_child d b = None \<and>
       synced_child sy = mutated_child d m \<and> mutated_child d sy = None \<and>
       (\<forall>e \<in> set rest. mutated_child d e = None))"
    unfolding SaveAreaNotes_def note_handler_defs
    by (simp split: option.splits dynamic.splits prod.splits sum.splits)
qed

lemma RemoveAreaNotes_sync_follows:
  "sync_follows_mutation d (snd (RemoveAreaNotes s d h c))"
proof (rule sync_follows_shape)
  show "(\<forall>e \<in> set (snd (RemoveAreaNotes s d h c)). mutated_child d e = None) \<or>
    (\<exists>a b m sy rest. snd (RemoveAreaNotes s d h c) = a # b # m # sy # rest \<and>
       mutated_child d a = None \<and> mutated_child d b = None \<and>
       synced_child sy = mutated_child d m \<and> mutated_child d sy = None \<and>
       (\<forall>e \<in> set rest. mutated_child d e = None))"
    unfolding RemoveAreaNotes_def note_handler_defs
    by (simp split: option.splits dynamic.splits prod.splits sum.splits)
qed

lemma SaveReservoirNotes_calls:
  assumes "found_reservoir s (Param c ''id'') r farm" and "FormValue c ''content'' \<noteq> ''''"
  shows "snd (SaveReservoirNotes s d h c) =
    [Call_ReservoirRepo_FindByID (Param c ''id''),
     Call_FarmRepo_FindByID (Reservoir_Farm_UID r),
     Call_Reservoir_AddNewNote r (FormValue c ''content''),
     Call_ChangeReservoirInformation farm (Reservoir_AddNewNote d r (FormValue c ''content'')),
     Call_ReservoirRepo_Save (Reservoir_AddNewNote d r (FormValue c ''content''))]
    @ (if ReservoirRepo_Save s (Reservoir_AddNewNote d r (FormValue c ''content'')) = None
       then [Call_FarmRepo_Save (snd (ChangeReservoirInformation d farm
               (Reservoir_AddNewNote d r (FormValue c ''content''))))]
       else [])"
  using assms unfolding SaveReservoirNotes_def found_reservoir_def note_handler_defs
  by (simp split: sum.splits prod.splits option.splits)

lemma SaveAreaNotes_calls:
  assumes "found_area s (Param c ''id'') a farm" and "FormValue c ''content'' \<noteq> ''''"
  shows "snd (SaveAreaNotes s d h c) =
    [Call_AreaRepo_FindByID (Param c ''id''),
     Call_FarmRepo_FindByID (Area_Farm_UID a),
     Call_Area_AddNewNote a (FormValue c ''content''),
     Call_ChangeAreaInformation farm (Area_AddNewNote d a (FormValue c ''content'')),
     Call_AreaRepo_Save (Area_AddNewNote d a (FormValue c ''content''))]
    @ (if AreaRepo_Save s (Area_AddNewNote d a (FormValue c ''content'')) = None
       then [Call_FarmRepo_Save (snd (ChangeAreaInformation d farm
               (Area_AddNewNote d a (FormValue c ''content''))))]
       else [])"
  using assms unfolding SaveAreaNotes_def found_area_def note_handler_defs
  by (simp split: sum.splits prod.splits option.splits)

lemma RemoveReservoirNotes_calls:
  assumes "found_reservoir s (Param c ''reservoir_id'') r farm"
    and "Reservoir_RemoveNote d r (Param c ''note_id'') = Inr r2"
  shows "snd (RemoveReservoirNotes s d h c) =
    [Call_ReservoirRepo_FindByID (Param c ''reservoir_id''),
     Call_FarmRepo_FindByID (Reservoir_Farm_UID r),
     Call_Reservoir_RemoveNote r (Param c ''note_id''),
     Call_ChangeReservoirInformation farm r2]
    @ (if fst (ChangeReservoirInformation d farm r2) \<noteq> None then []
       else Call_ReservoirRepo_Save r2 #
         (if ReservoirRepo_Save s r2 = None
          then [Call_FarmRepo_Save (snd (ChangeReservoirInformation d farm r2))]
          else []))"
  using assms unfolding RemoveReservoirNotes_def found_reservoir_def note_handler_defs
  by (simp split: sum.splits prod.splits option.splits)

lemma RemoveAreaNotes_calls:
  assumes "found_area s (Param c ''area_id'') a farm"
    and "Area_RemoveNote d a (Param c ''note_id'') = Inr a2"
  shows "snd (RemoveAreaNotes s d h c) =
    [Call_AreaRepo_FindByID (Param c ''area_id''),
     Call_FarmRepo_FindByID (Area_Farm_UID a),
     Call_Area_RemoveNote a (Param c ''note_id''),
     Call_ChangeAreaInformation farm a2]
    @ (if fst (ChangeAreaInformation d farm a2) \<noteq> None then []
       else Call_AreaRepo_Save a2 #
         (if AreaRepo_Save s a2 = None
          then [Call_FarmRepo_Save (snd (ChangeAreaInformation d farm a2))]
          else []))"
  using assms unfolding RemoveAreaNotes_def found_area_def note_handler_defs
  by (simp split: sum.splits prod.splits option.splits)

lemma example_mirrored_reservoir:
  "found_reservoir (mirroredServer saved) ''reservoir-1'' reservoir1 farm2"
  by (simp add: found_reservoir_def mirroredServer_def memoryServer_def reservoir1_def farm2_def
      farm1_def)

lemma example_mirrored_area:
  "found_area (mirroredServer saved) ''area-1'' area1 farm2"
  by (simp add: found_area_def mirroredServer_def memoryServer_def area1_def area2_def farm2_def
      farm1_def)

lemma example_mirrored_saves:
  "ReservoirRepo_Save (mirroredServer saved) r = saved"
  "AreaRepo_Save (mirroredServer saved) a = saved"
  "FarmRepo_Save (mirroredServer saved) f = saved"
  by (simp_all add: mirroredServer_def memoryServer_def)

lemma example_reservoir_synced:
  "Reservoir_UID r = ''reservoir-1'' \<Longrightarrow>
   ChangeReservoirInformation exampleNotes farm2 r = (None, farm2\<lparr>Reservoirs := [r]\<rparr>)"
  by (simp add: exampleNotes_def farm2_def reservoir1_def)

lemma example_area_synced:
  "Area_UID a = ''area-1'' \<Longrightarrow>
   ChangeAreaInformation exampleNotes farm2 a = (None, farm2\<lparr>Areas := [a, area2]\<rparr>)"
  by (simp add: exampleNotes_def farm2_def area1_def area2_def)

lemma example_notes_added:
  "Reservoir_AddNewNote exampleNotes reservoir1 content =
     reservoir1\<lparr>Reservoir_Notes :=
       [\<lparr>Note_UID = ''note-1'', Content = ''clean the filter'', Note_CreatedDate = 0\<rparr>,
        \<lparr>Note_UID = ''note-new'', Content = content, Note_CreatedDate = 0\<rparr>]\<rparr>"
  "Area_AddNewNote exampleNotes area1 content =
     area1\<lparr>Area_Notes :=
       [\<lparr>Note_UID = ''note-2'', Content = ''sow on monday'', Note_CreatedDate = 0\<rparr>,
        \<lparr>Note_UID = ''note-new'', Content = content, Note_CreatedDate = 0\<rparr>]\<rparr>"
  by (simp_all add: exampleNotes_def reservoir1_def area1_def)

lemma example_notes_removed:
  "Reservoir_RemoveNote exampleNotes reservoir1 ''note-1'' = Inr (reservoir1\<lparr>Reservoir_Notes := []\<rparr>)"
  "Area_RemoveNote exampleNotes area1 ''note-2'' = Inr (area1\<lparr>Area_Notes := []\<rparr>)"
  by (simp_all add: exampleNotes_def reservoir1_def area1_def)

text \<open>
  C5. In each of the four handlers that change the notes of a Reservoir or an Area, for
  every request: a note mutation that went through is followed at once by the call that
  synchronizes the farm's mirror (\<^verbatim>\<open>ChangeReservoirInformation\<close>,
  \<^verbatim>\<open>ChangeAreaInformation\<close>), on the child as the mutation left it; and every
  repository save comes after that call, which comes after the mutation. Once the two
  lookups have delivered the child and its farm (and the note has content, or the note to
  remove is there), the calls of the handler are exactly: the lookups, the note mutation,
  the synchronization, and then the saves, of the child first and of the farm if the save
  of the child succeeded (in the remove-note handlers, no save at all when the
  synchronization fails).
\<close>

theorem note_handlers_sync_before_save:
  "(sync_follows_mutation d (snd (SaveReservoirNotes s d h c))
      \<and> synced_before_save (snd (SaveReservoirNotes s d h c)))
   \<and> (sync_follows_mutation d (snd (RemoveReservoirNotes s d h c))
      \<and> synced_before_save (snd (RemoveReservoirNotes s d h c)))
   \<and> (sync_follows_mutation d (snd (SaveAreaNotes s d h c))
      \<and> synced_before_save (snd (SaveAreaNotes s d h c)))
   \<and> (sync_follows_mutation d (snd (RemoveAreaNotes s d h c))
      \<and> synced_before_save (snd (RemoveAreaNotes s d h c)))
   \<and> (found_reservoir s (Param c ''id'') r farm \<and> FormValue c ''content'' \<noteq> '''' \<longrightarrow>
        snd (SaveReservoirNotes s d h c) =
          [Call_ReservoirRepo_FindByID (Param c ''id''),
           Call_FarmRepo_FindByID (Reservoir_Farm_UID r),
           Call_Reservoir_AddNewNote r (FormValue c ''content''),
           Call_ChangeReservoirInformation farm (Reservoir_AddNewNote d r (FormValue c ''content'')),
           Call_ReservoirRepo_Save (Reservoir_AddNewNote d r (FormValue c ''content''))]
          @ (if ReservoirRepo_Save s (Reservoir_AddNewNote d r (FormValue c ''content'')) = None
             then [Call_FarmRepo_Save (snd (ChangeReservoirInformation d farm
                     (Reservoir_AddNewNote d r (FormValue c ''content''))))]
             else []))
   \<and> (found_reservoir s (Param c ''reservoir_id'') r farm \<and>
       Reservoir_RemoveNote d r (Param c ''note_id'') = Inr r2 \<longrightarrow>
        snd (RemoveReservoirNotes s d h c) =
          [Call_ReservoirRepo_FindByID (Param c ''reservoir_id''),
           Call_FarmRepo_FindByID (Reservoir_Farm_UID r),
           Call_Reservoir_RemoveNote r (Param c ''note_id''),
           Call_ChangeReservoirInformation farm r2]
          @ (if fst (ChangeReservoirInformation d farm r2) \<noteq> None then []
             else Call_ReservoirRepo_Save r2 #
               (if ReservoirRepo_Save s r2 = None
                then [Call_FarmRepo_Save (snd (ChangeReservoirInformation d farm r2))]
                else [])))
   \<and> (found_area s (Param c ''id'') a farm \<and> FormValue c ''content'' \<noteq> '''' \<longrightarrow>
        snd (SaveAreaNotes s d h c) =
          [Call_AreaRepo_FindByID (Param c ''id''),
           Call_FarmRepo_FindByID (Area_Farm_UID a),
           Call_Area_AddNewNote a (FormValue c ''content''),
           Call_ChangeAreaInformation farm (Area_AddNewNote d a (FormValue c ''content'')),
           Call_AreaRepo_Save (Area_AddNewNote d a (FormValue c ''content''))]
          @ (if AreaRepo_Save s (Area_AddNewNote d a (FormValue c ''content'')) = None
             then [Call_FarmRepo_Save (snd (ChangeAreaInformation d farm
                     (Area_AddNewNote d a (FormValue c ''content''))))]
             else []))
   \<and> (found_area s (Param c ''area_id'') a farm \<and>
       Area_RemoveNote d a (Param c ''note_id'') = Inr a2 \<longrightarrow>
        snd (RemoveAreaNotes s d h c) =
          [Call_AreaRepo_FindByID (Param c ''area_id''),
           Call_FarmRepo_FindByID (Area_Farm_UID a),
           Call_Area_RemoveNote a (Param c ''note_id''),
           Call_ChangeAreaInformation farm a2]
          @ (if fst (ChangeAreaInformation d farm a2) \<noteq> None then []
             else Call_AreaRepo_Save a2 #
               (if AreaRepo_Save s a2 = None
                then [Call_FarmRepo_Save (snd (ChangeAreaInformation d farm a2))]
                else [])))"
proof (intro conjI impI)
  show "sync_follows_mutation d (snd (SaveReservoirNotes s d h c))"
    by (rule SaveReservoirNotes_sync_follows)
  show "sync_follows_mutation d (snd (RemoveReservoirNotes s d h c))"
    by (rule RemoveReservoirNotes_sync_follows)
  show "sync_follows_mutation d (snd (SaveAreaNotes s d h c))"
    by (rule SaveAreaNotes_sync_follows)
  show "sync_follows_mutation d (snd (RemoveAreaNotes s d h c))"
    by (rule RemoveAreaNotes_sync_follows)
  show "synced_before_save (snd (SaveReservoirNotes s d h c))"
    by (rule note_trace_synced) (rule SaveReservoirNotes_trace)
  show "synced_before_save (snd (RemoveReservoirNotes s d h c))"
    by (rule note_trace_synced) (rule RemoveReservoirNotes_trace)
  show "synced_before_save (snd (SaveAreaNotes s d h c))"
    by (rule note_trace_synced) (rule SaveAreaNotes_trace)
  show "synced_before_save (snd (RemoveAreaNotes s d h c))"
    by (rule note_trace_synced) (rule RemoveAreaNotes_trace)
next
  assume "found_reservoir s (Param c ''id'') r farm \<and> FormValue c ''content'' \<noteq> ''''"
  then show "snd (SaveReservoirNotes s d h c) =
          [Call_ReservoirRepo_FindByID (Param c ''id''),
           Call_FarmRepo_FindByID (Reservoir_Farm_UID r),
           Call_Reservoir_AddNewNote r (FormValue c ''content''),
           Call_ChangeReservoirInformation farm (Reservoir_AddNewNote d r (FormValue c ''content'')),
           Call_ReservoirRepo_Save (Reservoir_AddNewNote d r (FormValue c ''content''))]
          @ (if ReservoirRepo_Save s (Reservoir_AddNewNote d r (FormValue c ''content'')) = None
             then [Call_FarmRepo_Save (snd (ChangeReservoirInformation d farm
                     (Reservoir_AddNewNote d r (FormValue c ''content''))))]
             else [])"
    using SaveReservoirNotes_calls [of s c r farm d h] by blast
next
  assume "found_reservoir s (Param c ''reservoir_id'') r farm \<and>
       Reservoir_RemoveNote d r (Param c ''note_id'') = Inr r2"
  then show "snd (RemoveReservoirNotes s d h c) =
          [Call_ReservoirRepo_FindByID (Param c ''reservoir_id''),
           Call_FarmRepo_FindByID (Reservoir_Farm_UID r),
           Call_Reservoir_RemoveNote r (Param c ''note_id''),
           Call_ChangeReservoirInformation farm r2]
          @ (if fst (ChangeReservoirInformation d farm r2) \<noteq> None then []
             else Call_ReservoirRepo_Save r2 #
               (if ReservoirRepo_Save s r2 = None
                then [Call_FarmRepo_Save (snd (ChangeReservoirInformation d farm r2))]
                else []))"
    using RemoveReservoirNotes_calls [of s c r farm d r2 h] by blast
next
  assume "found_area s (Param c ''id'') a farm \<and> FormValue c ''content'' \<noteq> ''''"
  then show "snd (SaveAreaNotes s d h c) =
          [Call_AreaRepo_FindByID (Param c ''id''),
           Call_FarmRepo_FindByID (Area_Farm_UID a),
           Call_Area_AddNewNote a (FormValue c ''content''),
           Call_ChangeAreaInformation farm (Area_AddNewNote d a (FormValue c ''content'')),
           Call_AreaRepo_Save (Area_AddNewNote d a (FormValue c ''content''))]
          @ (if AreaRepo_Save s (Area_AddNewNote d a (FormValue c ''content'')) = None
             then [Call_FarmRepo_Save (snd (ChangeAreaInformation d farm
                     (Area_AddNewNote d a (FormValue c ''content''))))]
             else [])"
    using SaveAreaNotes_calls [of s c a farm d h] by blast
next
  assume "found_area s (Param c ''area_id'') a farm \<and>
       Area_RemoveNote d a (Param c ''note_id'') = Inr a2"
  then show "snd (RemoveAreaNotes s d h c) =
          [Call_AreaRepo_FindByID (Param c ''area_id''),
           Call_FarmRepo_FindByID (Area_Farm_UID a),
           Call_Area_RemoveNote a (Param c ''note_id''),
           Call_ChangeAreaInformation farm a2]
          @ (if fst (ChangeAreaInformation d farm a2) \<noteq> None then []
             else Call_AreaRepo_Save a2 #
               (if AreaRepo_Save s a2 = None
                then [Call_FarmRepo_Save (snd (ChangeAreaInformation d farm a2))]
                else []))"
    using RemoveAreaNotes_calls [of s c a farm d a2 h] by blast
qed

text \<open>On the instance whose farm holds the mirrors, all four handlers run to the end: the
  two lookups, the note mutation, the synchronization on the changed child, the save of
  the child and the save of the farm with its mirror brought up to date.\<close>

theorem note_handlers_sync_before_save_witness:
  "found_reservoir (mirroredServer None) ''reservoir-1'' reservoir1 farm2
   \<and> found_area (mirroredServer None) ''area-1'' area1 farm2
   \<and> snd (SaveReservoirNotes (mirroredServer None) exampleNotes exampleHelpers
        (addNoteRequest ''reservoir-1'' ''check the pump'')) =
      [Call_ReservoirRepo_FindByID ''reservoir-1'', Call_FarmRepo_FindByID ''farm-1'',
       Call_Reservoir_AddNewNote reservoir1 ''check the pump'',
       Call_ChangeReservoirInformation farm2
         (Reservoir_AddNewNote exampleNotes reservoir1 ''check the pump''),
       Call_ReservoirRepo_Save (Reservoir_AddNewNote exampleNotes reservoir1 ''check the pump''),
       Call_FarmRepo_Save (farm2\<lparr>Reservoirs :=
         [Reservoir_AddNewNote exampleNotes reservoir1 ''check the pump'']\<rparr>)]
   \<and> Reservoir_RemoveNote exampleNotes reservoir1 ''note-1''
      = Inr (reservoir1\<lparr>Reservoir_Notes := []\<rparr>)
   \<and> snd (RemoveReservoirNotes (mirroredServer None) exampleNotes exampleHelpers
        (removeNoteRequest ''reservoir-1'' ''note-1'')) =
      [Call_ReservoirRepo_FindByID ''reservoir-1'', Call_FarmRepo_FindByID ''farm-1'',
       Call_Reservoir_RemoveNote reservoir1 ''note-1'',
       Call_ChangeReservoirInformation farm2 (reservoir1\<lparr>Reservoir_Notes := []\<rparr>),
       Call_ReservoirRepo_Save (reservoir1\<lparr>Reservoir_Notes := []\<rparr>),
       Call_FarmRepo_Save (farm2\<lparr>Reservoirs := [reservoir1\<lparr>Reservoir_Notes := []\<rparr>]\<rparr>)]
   \<and> snd (SaveAreaNotes (mirroredServer None) exampleNotes exampleHelpers
        (addNoteRequest ''area-1'' ''water twice'')) =
      [Call_AreaRepo_FindByID ''area-1'', Call_FarmRepo_FindByID ''farm-1'',
       Call_Area_AddNewNote area1 ''water twice'',
       Call_ChangeAreaInformation farm2 (Area_AddNewNote exampleNotes area1 ''water twice''),
       Call_AreaRepo_Save (Area_AddNewNote exampleNotes area1 ''water twice''),
       Call_FarmRepo_Save (farm2\<lparr>Areas :=
         [Area_AddNewNote exampleNotes area1 ''water twice'', area2]\<rparr>)]
   \<and> Area_RemoveNote exampleNotes area1 ''note-2'' = Inr (area1\<lparr>Area_Notes := []\<rparr>)
   \<and> snd (RemoveAreaNotes (mirroredServer None) exampleNotes exampleHelpers
        (removeNoteRequest ''area-1'' ''note-2'')) =
      [Call_AreaRepo_FindByID ''area-1'', Call_FarmRepo_FindByID ''farm-1'',
       Call_Area_RemoveNote area1 ''note-2'',
       Call_ChangeAreaInformation farm2 (area1\<lparr>Area_Notes := []\<rparr>),
       Call_AreaRepo_Save (area1\<lparr>Area_Notes := []\<rparr>),
       Call_FarmRepo_Save (farm2\<lparr>Areas := [area1\<lparr>Area_Notes := []\<rparr>, area2]\<rparr>)]
   \<and> sync_follows_mutation exampleNotes
        (snd (RemoveAreaNotes (mirroredServer None) exampleNotes exampleHelpers
           (removeNoteRequest ''area-1'' ''note-2'')))
   \<and> synced_before_save
        (snd (RemoveAreaNotes (mirroredServer None) exampleNotes exampleHelpers
           (removeNoteRequest ''area-1'' ''note-2'')))"
proof -
  let ?s = "mirroredServer None"
  let ?addR = "addNoteRequest ''reservoir-1'' ''check the pump''"
  let ?removeR = "removeNoteRequest ''reservoir-1'' ''note-1''"
  let ?addA = "addNoteRequest ''area-1'' ''water twice''"
  let ?removeA = "removeNoteRequest ''area-1'' ''note-2''"
  let ?r1 = "Reservoir_AddNewNote exampleNotes reservoir1 ''check the pump''"
  let ?r2 = "reservoir1\<lparr>Reservoir_Notes := []\<rparr>"
  let ?a1 = "Area_AddNewNote exampleNotes area1 ''water twice''"
  let ?a2 = "area1\<lparr>Area_Notes := []\<rparr>"
  have uid: "Reservoir_Farm_UID reservoir1 = ''farm-1''" "Area_Farm_UID area1 = ''farm-1''"
    by (simp_all add: reservoir1_def area1_def)
  have ids: "Reservoir_UID ?r1 = ''reservoir-1''" "Reservoir_UID ?r2 = ''reservoir-1''"
    "Area_UID ?a1 = ''area-1''" "Area_UID ?a2 = ''area-1''"
    by (simp_all add: example_notes_added) (simp_all add: reservoir1_def area1_def)
  note synced = example_reservoir_synced [OF ids(1)] example_reservoir_synced [OF ids(2)]
    example_area_synced [OF ids(3)] example_area_synced [OF ids(4)]
  note inst = note_handlers_sync_before_save [where s = ?s and d = exampleNotes
      and h = exampleHelpers and r = reservoir1 and a = area1 and farm = farm2]
  from inst [where c = ?addR]
  have addR: "snd (SaveReservoirNotes ?s exampleNotes exampleHelpers ?addR) =
      [Call_ReservoirRepo_FindByID ''reservoir-1'', Call_FarmRepo_FindByID ''farm-1'',
       Call_Reservoir_AddNewNote reservoir1 ''check the pump'',
       Call_ChangeReservoirInformation farm2 ?r1, Call_ReservoirRepo_Save ?r1,
       Call_FarmRepo_Save (farm2\<lparr>Reservoirs := [?r1]\<rparr>)]"
    by (simp add: example_add_note_request example_mirrored_reservoir example_mirrored_saves
        synced uid)
  from inst [where c = ?removeR and ?r2.0 = ?r2]
  have removeR: "snd (RemoveReservoirNotes ?s exampleNotes exampleHelpers ?removeR) =
      [Call_ReservoirRepo_FindByID ''reservoir-1'', Call_FarmRepo_FindByID ''farm-1'',
       Call_Reservoir_RemoveNote reservoir1 ''note-1'',
       Call_ChangeReservoirInformation farm2 ?r2, Call_ReservoirRepo_Save ?r2,
       Call_FarmRepo_Save (farm2\<lparr>Reservoirs := [?r2]\<rparr>)]"
    by (simp add: example_remove_note_request example_mirrored_reservoir example_mirrored_saves
        example_notes_removed synced uid)
  from inst [where c = ?addA]
  have addA: "snd (SaveAreaNotes ?s exampleNotes exampleHelpers ?addA) =
      [Call_AreaRepo_FindByID ''area-1'', Call_FarmRepo_FindByID ''farm-1'',
       Call_Area_AddNewNote area1 ''water twice'',
       Call_ChangeAreaInformation farm2 ?a1, Call_AreaRepo_Save ?a1,
       Call_FarmRepo_Save (farm2\<lparr>Areas := [?a1, area2]\<rparr>)]"
    by (simp add: example_add_note_request example_mirrored_area example_mirrored_saves
        synced uid)
  from inst [where c = ?removeA and ?a2.0 = ?a2]
  have removeA: "snd (RemoveAreaNotes ?s exampleNotes exampleHelpers ?removeA) =
      [Call_AreaRepo_FindByID ''area-1'', Call_FarmRepo_FindByID ''farm-1'',
       Call_Area_RemoveNote area1 ''note-2'',
       Call_ChangeAreaInformation farm2 ?a2, Call_AreaRepo_Save ?a2,
       Call_FarmRepo_Save (farm2\<lparr>Areas := [?a2, area2]\<rparr>)]"
    by (simp add: example_remove_note_request example_mirrored_area example_mirrored_saves
        example_notes_removed synced uid)
  from inst [where c = ?removeA]
  have props: "sync_follows_mutation exampleNotes
      (snd (RemoveAreaNotes ?s exampleNotes exampleHelpers ?removeA))"
    "synced_before_save (snd (RemoveAreaNotes ?s exampleNotes exampleHelpers ?removeA))"
    by blast+
  from addR removeR addA removeA props example_notes_removed
    example_mirrored_reservoir [of None] example_mirrored_area [of None]
  show ?thesis by blast
qed

text \<open>
  C9. The add-note handlers drop the result of the synchronization: when it returns an
  error (and the lookups, the saves and the view mapping go through), both saves are still
  issued, of the child with its new note and of the farm as the synchronization left it,
  and the handler answers 200. The remove-note handlers return the error of the
  synchronization and issue no save.
\<close>

theorem add_note_handlers_discard_sync_result:
  "(found_reservoir s (Param c ''id'') r farm \<and> FormValue c ''content'' \<noteq> '''' \<and>
    ChangeReservoirInformation d farm (Reservoir_AddNewNote d r (FormValue c ''content''))
      = (Some e, farm') \<and>
    ReservoirRepo_Save s (Reservoir_AddNewNote d r (FormValue c ''content'')) = None \<and>
    FarmRepo_Save s farm' = None \<and>
    MapToDetailReservoir h (Reservoir_AddNewNote d r (FormValue c ''content'')) = Inr view
    \<longrightarrow> SaveReservoirNotes s d h c =
      (JSON StatusOK (DetailReservoirData view),
       [Call_ReservoirRepo_FindByID (Param c ''id''),
        Call_FarmRepo_FindByID (Reservoir_Farm_UID r),
        Call_Reservoir_AddNewNote r (FormValue c ''content''),
        Call_ChangeReservoirInformation farm (Reservoir_AddNewNote d r (FormValue c ''content'')),
        Call_ReservoirRepo_Save (Reservoir_AddNewNote d r (FormValue c ''content'')),
        Call_FarmRepo_Save farm']))
   \<and> (found_area s (Param c ''id'') a farm \<and> FormValue c ''content'' \<noteq> '''' \<and>
    ChangeAreaInformation d farm (Area_AddNewNote d a (FormValue c ''content''))
      = (Some e, farm') \<and>
    AreaRepo_Save s (Area_AddNewNote d a (FormValue c ''content'')) = None \<and>
    FarmRepo_Save s farm' = None \<and>
    MapToDetailArea h (Area_AddNewNote d a (FormValue c ''content'')) = Inr aview
    \<longrightarrow> SaveAreaNotes s d h c =
      (JSON StatusOK (DetailAreaData aview),
       [Call_AreaRepo_FindByID (Param c ''id''),
        Call_FarmRepo_FindByID (Area_Farm_UID a),
        Call_Area_AddNewNote a (FormValue c ''content''),
        Call_ChangeAreaInformation farm (Area_AddNewNote d a (FormValue c ''content'')),
        Call_AreaRepo_Save (Area_AddNewNote d a (FormValue c ''content'')),
        Call_FarmRepo_Save farm']))
   \<and> (found_reservoir s (Param c ''reservoir_id'') r farm \<and>
    Reservoir_RemoveNote d r (Param c ''note_id'') = Inr r2 \<and>
    ChangeReservoirInformation d farm r2 = (Some e, farm')
    \<longrightarrow> RemoveReservoirNotes s d h c =
      (ErrorResponse e,
       [Call_ReservoirRepo_FindByID (Param c ''reservoir_id''),
        Call_FarmRepo_FindByID (Reservoir_Farm_UID r),
        Call_Reservoir_RemoveNote r (Param c ''note_id''),
        Call_ChangeReservoirInformation farm r2]))
   \<and> (found_area s (Param c ''area_id'') a farm \<and>
    Area_RemoveNote d a (Param c ''note_id'') = Inr a2 \<and>
    ChangeAreaInformation d farm a2 = (Some e, farm')
    \<longrightarrow> RemoveAreaNotes s d h c =
      (ErrorResponse e,
       [Call_AreaRepo_FindByID (Param c ''area_id''),
        Call_FarmRepo_FindByID (Area_Farm_UID a),
        Call_Area_RemoveNote a (Param c ''note_id''),
        Call_ChangeAreaInformation farm a2]))"
proof (intro conjI impI)
  assume h: "found_reservoir s (Param c ''id'') r farm \<and> FormValue c ''content'' \<noteq> '''' \<and>
    ChangeReservoirInformation d farm (Reservoir_AddNewNote d r (FormValue c ''content''))
      = (Some e, farm') \<and>
    ReservoirRepo_Save s (Reservoir_AddNewNote d r (FormValue c ''content'')) = None \<and>
    FarmRepo_Save s farm' = None \<and>
    MapToDetailReservoir h (Reservoir_AddNewNote d r (FormValue c ''content'')) = Inr view"
  then have "found_reservoir s (Param c ''id'') r farm" "FormValue c ''content'' \<noteq> ''''"
    "ChangeReservoirInformation d farm (Reservoir_AddNewNote d r (FormValue c ''content''))
      = (Some e, farm')"
    by simp_all
  from SaveReservoirNotes_path [OF this] h
  show "SaveReservoirNotes s d h c =
      (JSON StatusOK (DetailReservoirData view),
       [Call_ReservoirRepo_FindByID (Param c ''id''),
        Call_FarmRepo_FindByID (Reservoir_Farm_UID r),
        Call_Reservoir_AddNewNote r (FormValue c ''content''),
        Call_ChangeReservoirInformation farm (Reservoir_AddNewNote d r (FormValue c ''content'')),
        Call_ReservoirRepo_Save (Reservoir_AddNewNote d r (FormValue c ''content'')),
        Call_FarmRepo_Save farm'])"
    by (simp add: Let_def)
next
  assume h: "found_area s (Param c ''id'') a farm \<and> FormValue c ''content'' \<noteq> '''' \<and>
    ChangeAreaInformation d farm (Area_AddNewNote d a (FormValue c ''content''))
      = (Some e, farm') \<and>
    AreaRepo_Save s (Area_AddNewNote d a (FormValue c ''content'')) = None \<and>
    FarmRepo_Save s farm' = None \<and>
    MapToDetailArea h (Area_AddNewNote d a (FormValue c ''content'')) = Inr aview"
  then have "found_area s (Param c ''id'') a farm" "FormValue c ''content'' \<noteq> ''''"
    "ChangeAreaInformation d farm (Area_AddNewNote d a (FormValue c ''content''))
      = (Some e, farm')"
    by simp_all
  from SaveAreaNotes_path [OF this] h
  show "SaveAreaNotes s d h c =
      (JSON StatusOK (DetailAreaData aview),
       [Call_AreaRepo_FindByID (Param c ''id''),
        Call_FarmRepo_FindByID (Area_Farm_UID a),
        Call_Area_AddNewNote a (FormValue c ''content''),
        Call_ChangeAreaInformation farm (Area_AddNewNote d a (FormValue c ''content'')),
        Call_AreaRepo_Save (Area_AddNewNote d a (FormValue c ''content'')),
        Call_FarmRepo_Save farm'])"
    by (simp add: Let_def)
next
  assume "found_reservoir s (Param c ''reservoir_id'') r farm \<and>
    Reservoir_RemoveNote d r (Param c ''note_id'') = Inr r2 \<and>
    ChangeReservoirInformation d farm r2 = (Some e, farm')"
  then show "RemoveReservoirNotes s d h c =
      (ErrorResponse e,
       [Call_ReservoirRepo_FindByID (Param c ''reservoir_id''),
        Call_FarmRepo_FindByID (Reservoir_Farm_UID r),
        Call_Reservoir_RemoveNote r (Param c ''note_id''),
        Call_ChangeReservoirInformation farm r2])"
    by (simp add: RemoveReservoirNotes_sync_fails)
next
  assume "found_area s (Param c ''area_id'') a farm \<and>
    Area_RemoveNote d a (Param c ''note_id'') = Inr a2 \<and>
    ChangeAreaInformation d farm a2 = (Some e, farm')"
  then show "RemoveAreaNotes s d h c =
      (ErrorResponse e,
       [Call_AreaRepo_FindByID (Param c ''area_id''),
        Call_FarmRepo_FindByID (Area_Farm_UID a),
        Call_Area_RemoveNote a (Param c ''note_id''),
        Call_ChangeAreaInformation farm a2])"
    by (simp add: RemoveAreaNotes_sync_fails)
qed

theorem add_note_handlers_discard_sync_result_witness:
  "found_reservoir (exampleServer None) ''reservoir-1'' reservoir1 farm1
   \<and> ChangeReservoirInformation exampleNotes farm1
        (Reservoir_AddNewNote exampleNotes reservoir1 ''check the pump'')
      = (Some (RequestValidationError NOT_FOUND ''reservoir''), farm1)
   \<and> SaveReservoirNotes (exampleServer None) exampleNotes exampleHelpers
        (addNoteRequest ''reservoir-1'' ''check the pump'') =
      (JSON StatusOK (DetailReservoirData (DetailReservoir
          (Reservoir_AddNewNote exampleNotes reservoir1 ''check the pump''))),
       [Call_ReservoirRepo_FindByID ''reservoir-1'', Call_FarmRepo_FindByID ''farm-1'',
        Call_Reservoir_AddNewNote reservoir1 ''check the pump'',
        Call_ChangeReservoirInformation farm1
          (Reservoir_AddNewNote exampleNotes reservoir1 ''check the pump''),
        Call_ReservoirRepo_Save (Reservoir_AddNewNote exampleNotes reservoir1 ''check the pump''),
        Call_FarmRepo_Save farm1])
   \<and> Reservoir_RemoveNote exampleNotes reservoir1 ''note-1''
      = Inr (reservoir1\<lparr>Reservoir_Notes := []\<rparr>)
   \<and> RemoveReservoirNotes (exampleServer None) exampleNotes exampleHelpers
        (removeNoteRequest ''reservoir-1'' ''note-1'') =
      (ErrorResponse (RequestValidationError NOT_FOUND ''reservoir''),
       [Call_ReservoirRepo_FindByID ''reservoir-1'', Call_FarmRepo_FindByID ''farm-1'',
        Call_Reservoir_RemoveNote reservoir1 ''note-1'',
        Call_ChangeReservoirInformation farm1 (reservoir1\<lparr>Reservoir_Notes := []\<rparr>)])
   \<and> found_area (exampleServer None) ''area-1'' area1 farm1
   \<and> ChangeAreaInformation exampleNotes farm1
        (Area_AddNewNote exampleNotes area1 ''water twice'')
      = (Some (RequestValidationError NOT_FOUND ''area''), farm1)
   \<and> SaveAreaNotes (exampleServer None) exampleNotes exampleHelpers
        (addNoteRequest ''area-1'' ''water twice'') =
      (JSON StatusOK (DetailAreaData (DetailArea
          (Area_AddNewNote exampleNotes area1 ''water twice''))),
       [Call_AreaRepo_FindByID ''area-1'', Call_FarmRepo_FindByID ''farm-1'',
        Call_Area_AddNewNote area1 ''water twice'',
        Call_ChangeAreaInformation farm1 (Area_AddNewNote exampleNotes area1 ''water twice''),
        Call_AreaRepo_Save (Area_AddNewNote exampleNotes area1 ''water twice''),
        Call_FarmRepo_Save farm1])
   \<and> Area_RemoveNote exampleNotes area1 ''note-2'' = Inr (area1\<lparr>Area_Notes := []\<rparr>)
   \<and> RemoveAreaNotes (exampleServer None) exampleNotes exampleHelpers
        (removeNoteRequest ''area-1'' ''note-2'') =
      (ErrorResponse (RequestValidationError NOT_FOUND ''area''),
       [Call_AreaRepo_FindByID ''area-1'', Call_FarmRepo_FindByID ''farm-1'',
        Call_Area_RemoveNote area1 ''note-2'',
        Call_ChangeAreaInformation farm1 (area1\<lparr>Area_Notes := []\<rparr>)])"
proof -
  let ?s = "exampleServer None"
  let ?add = "addNoteRequest ''reservoir-1'' ''check the pump''"
  let ?remove = "removeNoteRequest ''reservoir-1'' ''note-1''"
  let ?r' = "Reservoir_AddNewNote exampleNotes reservoir1 ''check the pump''"
  let ?e = "RequestValidationError NOT_FOUND ''reservoir''"
  let ?addA = "addNoteRequest ''area-1'' ''water twice''"
  let ?removeA = "removeNoteRequest ''area-1'' ''note-2''"
  let ?a' = "Area_AddNewNote exampleNotes area1 ''water twice''"
  let ?eA = "RequestValidationError NOT_FOUND ''area''"
  have uid: "Reservoir_Farm_UID reservoir1 = ''farm-1''" "Area_Farm_UID area1 = ''farm-1''"
    by (simp_all add: reservoir1_def area1_def)
  have saves: "ReservoirRepo_Save ?s x = None" "FarmRepo_Save ?s y = None"
    "AreaRepo_Save ?s z = None" for x y z
    by (simp_all add: exampleServer_def memoryServer_def)
  have view: "MapToDetailReservoir exampleHelpers x = Inr (DetailReservoir x)"
    "MapToDetailArea exampleHelpers y = Inr (DetailArea y)" for x y
    by (simp_all add: exampleHelpers_def)
  have removed: "Reservoir_RemoveNote exampleNotes reservoir1 ''note-1''
      = Inr (reservoir1\<lparr>Reservoir_Notes := []\<rparr>)"
    by (simp add: exampleNotes_def reservoir1_def)
  have removedA: "Area_RemoveNote exampleNotes area1 ''note-2'' = Inr (area1\<lparr>Area_Notes := []\<rparr>)"
    by (simp add: exampleNotes_def area1_def)
  note inst = add_note_handlers_discard_sync_result [where s = ?s and d = exampleNotes
      and h = exampleHelpers and r = reservoir1 and farm = farm1 and farm' = farm1 and e = ?e]
  note instA = add_note_handlers_discard_sync_result [where s = ?s and d = exampleNotes
      and h = exampleHelpers and a = area1 and farm = farm1 and farm' = farm1 and e = ?eA]
  from inst [where c = ?add and view = "DetailReservoir ?r'"]
  have add: "SaveReservoirNotes ?s exampleNotes exampleHelpers ?add =
      (JSON StatusOK (DetailReservoirData (DetailReservoir ?r')),
       [Call_ReservoirRepo_FindByID ''reservoir-1'', Call_FarmRepo_FindByID ''farm-1'',
        Call_Reservoir_AddNewNote reservoir1 ''check the pump'',
        Call_ChangeReservoirInformation farm1 ?r',
        Call_ReservoirRepo_Save ?r', Call_FarmRepo_Save farm1])"
    by (simp add: example_add_note_request example_found_reservoir example_reservoir_sync_fails
        saves view uid)
  from inst [where c = ?remove and ?r2.0 = "reservoir1\<lparr>Reservoir_Notes := []\<rparr>"]
  have remove: "RemoveReservoirNotes ?s exampleNotes exampleHelpers ?remove =
      (ErrorResponse ?e,
       [Call_ReservoirRepo_FindByID ''reservoir-1'', Call_FarmRepo_FindByID ''farm-1'',
        Call_Reservoir_RemoveNote reservoir1 ''note-1'',
        Call_ChangeReservoirInformation farm1 (reservoir1\<lparr>Reservoir_Notes := []\<rparr>)])"
    by (simp add: example_remove_note_request example_found_reservoir example_reservoir_sync_fails
        removed uid)
  from instA [where c = ?addA and aview = "DetailArea ?a'"]
  have addA: "SaveAreaNotes ?s exampleNotes exampleHelpers ?addA =
      (JSON StatusOK (DetailAreaData (DetailArea ?a')),
       [Call_AreaRepo_FindByID ''area-1'', Call_FarmRepo_FindByID ''farm-1'',
        Call_Area_AddNewNote area1 ''water twice'',
        Call_ChangeAreaInformation farm1 ?a',
        Call_AreaRepo_Save ?a', Call_FarmRepo_Save farm1])"
    by (simp add: example_add_note_request example_found_area example_area_sync_fails
        saves view uid)
  from instA [where c = ?removeA and ?a2.0 = "area1\<lparr>Area_Notes := []\<rparr>"]
  have removeA: "RemoveAreaNotes ?s exampleNotes exampleHelpers ?removeA =
      (ErrorResponse ?eA,
       [Call_AreaRepo_FindByID ''area-1'', Call_FarmRepo_FindByID ''farm-1'',
        Call_Area_RemoveNote area1 ''note-2'',
        Call_ChangeAreaInformation farm1 (area1\<lparr>Area_Notes := []\<rparr>)])"
    by (simp add: example_remove_note_request example_found_area example_area_sync_fails
        removedA uid)
  from add remove removed example_found_reservoir [of None]
    example_reservoir_sync_fails [of ?r'] addA removeA removedA example_found_area [of None]
    example_area_sync_fails [of ?a']
  show ?thesis by blast
qed

section \<open>Errors of a save\<close>

lemma save_guarded_no_calls: "snd m = [] \<Longrightarrow> save_guarded s f m"
  by (cases "fst m") (simp_all add: save_guarded_def save_error_ends_def)

lemma save_guarded_proceed [simp]: "save_guarded s f (proceed x)"
  by (simp add: save_guarded_no_calls proceed_def)

lemma save_guarded_respond [simp]: "save_guarded s f (respond r)"
  by (simp add: save_guarded_no_calls respond_def)

lemma save_guarded_orError [simp]: "save_guarded s f (orError x)"
  by (cases x) (simp_all add: orError_def)

lemma save_guarded_checkError [simp]: "save_guarded s f (checkError x)"
  by (simp add: checkError_def split: option.splits)

lemma save_guarded_assert [simp]:
  "save_guarded s f (assertFarm st x)" "save_guarded s f (assertReservoir st x)"
  "save_guarded s f (assertArea st x)"
  by (simp_all add: assertFarm_def assertReservoir_def assertArea_def split: dynamic.splits)

lemma save_error_ends_prefix:
  assumes "\<forall>e \<in> set t. save_outcome s e = None" and "save_error_ends s f (r, t')"
  shows "save_error_ends s f (r, t @ t')"
  unfolding save_error_ends_def
proof (intro allI impI)
  fix k err
  assume k: "k < length (snd (r, t @ t'))"
    and o: "save_outcome s (snd (r, t @ t') ! k) = Some err"
  have "\<not> k < length t"
  proof
    assume "k < length t"
    then have "(t @ t') ! k \<in> set t" by (simp add: nth_append)
    with assms(1) o show False by simp
  qed
  then have ge: "length t \<le> k" by simp
  then have "(t @ t') ! k = t' ! (k - length t)" by (simp add: nth_append)
  moreover have "k - length t < length t'" using k ge by simp
  ultimately have last: "Suc (k - length t) = length t'" and r: "r = ErrorResponse (f err)"
    using assms(2) o unfolding save_error_ends_def by simp_all
  from last ge have "Suc k = length t + length t'" by arith
  with r show "Suc k = length (snd (r, t @ t')) \<and> fst (r, t @ t') = ErrorResponse (f err)"
    by simp
qed

lemma save_guarded_andThen:
  assumes "save_guarded s f m" and "\<And>x. save_guarded s f (g x)"
  shows "save_guarded s f (andThen m g)"
proof (cases m)
  case (Pair y t)
  show ?thesis
  proof (cases y)
    case (Inl r)
    then show ?thesis using assms(1) Pair by (simp add: save_guarded_def)
  next
    case (Inr x)
    have clean: "\<forall>e \<in> set t. save_outcome s e = None"
      using assms(1) Pair Inr by (simp add: save_guarded_def)
    have eq: "andThen m g = (fst (g x), t @ snd (g x))" by (simp add: Pair Inr)
    show ?thesis
    proof (cases "fst (g x)")
      case (Inl r)
      then have "save_error_ends s f (r, snd (g x))"
        using assms(2) [of x] by (simp add: save_guarded_def)
      from save_error_ends_prefix [OF clean this] show ?thesis
        by (simp add: eq save_guarded_def Inl)
    next
      case (Inr z)
      then have "\<forall>e \<in> set (snd (g x)). save_outcome s e = None"
        using assms(2) [of x] by (simp add: save_guarded_def)
      with clean show ?thesis by (auto simp: eq save_guarded_def Inr)
    qed
  qed
qed

lemma save_guarded_call:
  assumes "save_outcome s e = None \<Longrightarrow> save_guarded s f (g out)"
    and "\<And>err. save_outcome s e = Some err \<Longrightarrow> g out = respond (ErrorResponse (f err))"
  shows "save_guarded s f (andThen (call e out) g)"
proof (cases "save_outcome s e")
  case None
  have "save_guarded s f (call e out)" by (simp add: save_guarded_def call_def None)
  moreover have "andThen (call e out) g = andThen (call e out) (\<lambda>_. g out)"
    by (simp add: call_def)
  ultimately show ?thesis using assms(1) [OF None] by (simp add: save_guarded_andThen)
next
  case (Some err)
  from assms(2) [OF Some] show ?thesis
    by (simp add: call_def respond_def save_guarded_def save_error_ends_def Some)
qed

lemma save_guarded_plain_call [simp]:
  "save_outcome s e = None \<Longrightarrow> save_guarded s f (call e out)"
  by (simp add: save_guarded_def call_def)

lemma handler_save_guarded:
  "save_guarded s f m \<Longrightarrow> save_error_ends s f (handler m)"
  by (cases m; cases "fst m") (auto simp: save_guarded_def save_error_ends_def)

lemma andThen_respond [simp]: "andThen (respond r) g = respond r"
  by (simp add: respond_def)

lemma save_guarded_If:
  "(b \<Longrightarrow> save_guarded s f m) \<Longrightarrow> (\<not> b \<Longrightarrow> save_guarded s f m') \<Longrightarrow>
   save_guarded s f (if b then m else m')"
  by simp

lemma save_guarded_case_prod:
  "(\<And>a b. save_guarded s f (g a b)) \<Longrightarrow> save_guarded s f (case x of (a, b) \<Rightarrow> g a b)"
  by (cases x) simp

lemma save_guarded_case_sum:
  "(\<And>a. save_guarded s f (g a)) \<Longrightarrow> (\<And>b. save_guarded s f (g' b)) \<Longrightarrow>
   save_guarded s f (case x of Inl a \<Rightarrow> g a | Inr b \<Rightarrow> g' b)"
  by (cases x) simp_all

lemma save_guarded_case_option:
  "save_guarded s f m \<Longrightarrow> (\<And>a. save_guarded s f (g a)) \<Longrightarrow>
   save_guarded s f (case x of None \<Rightarrow> m | Some a \<Rightarrow> g a)"
  by (cases x) simp_all

lemma save_guarded_saveOrInternalError:
  "save_outcome s e = out \<Longrightarrow>
   save_guarded s (\<lambda>err. internalServerError) (saveOrInternalError e out)"
  unfolding saveOrInternalError_def
  by (intro save_guarded_call) (auto simp: respond_def)

lemmas save_guarded_rules =
  handler_save_guarded save_guarded_saveOrInternalError save_guarded_call save_guarded_andThen
  save_guarded_If save_guarded_case_prod save_guarded_case_sum save_guarded_case_option

lemma SaveFarm_save_errors: "save_error_ends s (\<lambda>err. err) (SaveFarm s d c)"
  unfolding SaveFarm_def
  by (intro save_guarded_rules) simp_all

lemma SaveReservoir_save_errors: "save_error_ends s (\<lambda>err. err) (SaveReservoir s v a h c)"
  unfolding SaveReservoir_def
  by (intro save_guarded_rules) simp_all

lemma firstContentType_save_guarded: "save_guarded s f (firstContentType photo)"
  by (simp add: firstContentType_def split: option.splits list.splits)

lemma attachUploadedPhoto_save_guarded: "save_guarded s f (attachUploadedPhoto s h c area)"
  unfolding attachUploadedPhoto_def Let_def
  by (intro save_guarded_rules firstContentType_save_guarded) simp_all

lemma SaveArea_save_errors: "save_error_ends s (\<lambda>err. err) (SaveArea s v a h c)"
  unfolding SaveArea_def Let_def
  by (intro save_guarded_rules attachUploadedPhoto_save_guarded) simp_all

lemma validateMaterialInput_save_guarded:
  "save_guarded s f (validateMaterialInput h quantity expirationDate notes producedBy isExpense)"
  unfolding validateMaterialInput_def Let_def
  by (intro save_guarded_rules) simp_all

lemma resolveMaterialType_save_guarded:
  "save_guarded s f (resolveMaterialType d p a b c)"
  unfolding resolveMaterialType_def Let_def
  by (intro save_guarded_rules) simp_all

lemma createAndSaveMaterial_save_guarded:
  "save_guarded s (\<lambda>err. err)
     (createAndSaveMaterial s d h name price cur mt q unit expDate n pb ie)"
  unfolding createAndSaveMaterial_def Let_def
  by (intro save_guarded_rules) simp_all

lemma SaveMaterial_save_errors: "save_error_ends s (\<lambda>err. err) (SaveMaterial s d h c)"
  unfolding SaveMaterial_def Let_def
  by (intro save_guarded_rules validateMaterialInput_save_guarded resolveMaterialType_save_guarded
      createAndSaveMaterial_save_guarded)

lemma SaveReservoirNotes_save_errors:
  "save_error_ends s (\<lambda>err. internalServerError) (SaveReservoirNotes s d h c)"
  unfolding SaveReservoirNotes_def Let_def
  by (intro save_guarded_rules) simp_all

lemma RemoveReservoirNotes_save_errors:
  "save_error_ends s (\<lambda>err. internalServerError) (RemoveReservoirNotes s d h c)"
  unfolding RemoveReservoirNotes_def Let_def
  by (intro save_guarded_rules) simp_all

lemma SaveAreaNotes_save_errors:
  "save_error_ends s (\<lambda>err. internalServerError) (SaveAreaNotes s d h c)"
  unfolding SaveAreaNotes_def Let_def
  by (intro save_guarded_rules) simp_all

lemma RemoveAreaNotes_save_errors:
  "save_error_ends s (\<lambda>err. internalServerError) (RemoveAreaNotes s d h c)"
  unfolding RemoveAreaNotes_def Let_def
  by (intro save_guarded_rules) simp_all

lemma example_farm_run:
  "SaveFarm (exampleServer saved) exampleDomain farmRequest =
    (case saved of Some e \<Rightarrow> ErrorResponse e | None \<Rightarrow> JSON StatusOK (FarmData farm1),
     [Call_CreateFarm ''F1'' ''organic'',
      Call_ChangeGeoLocation (farm1\<lparr>Latitude := '''', Longitude := '''', CountryCode := '''',
         CityCode := ''''\<rparr>) ''-6.2'' ''106.8'',
      Call_ChangeRegion (farm1\<lparr>CountryCode := '''', CityCode := ''''\<rparr>) ''ID'' ''JK'',
      Call_FarmRepo_Save farm1])"
  by (simp add: SaveFarm_def farmRequest_def request_def exampleServer_def memoryServer_def
      exampleDomain_def farm1_def orError_def step_defs split: option.splits)

text \<open>
  C2. The claim: in every handler that saves, an error of the save is returned to the
  caller unchanged and nothing is retried, in \<^verbatim>\<open>SaveReservoirNotes\<close> as in
  \<^verbatim>\<open>SaveFarm\<close>. \<^verbatim>\<open>SaveReservoirNotes\<close> does not return the error of the save:
  it answers a new \<^verbatim>\<open>Internal server error\<close> with status 500 in its place.
\<close>

theorem save_errors_untouched_counterexample:
  "ReservoirRepo_Save (exampleServer (Some (OtherError ''disk full'')))
       (Reservoir_AddNewNote exampleNotes reservoir1 ''check the pump'')
     = Some (OtherError ''disk full'')
   \<and> SaveReservoirNotes (exampleServer (Some (OtherError ''disk full''))) exampleNotes exampleHelpers
       (addNoteRequest ''reservoir-1'' ''check the pump'') =
     (ErrorResponse (HTTPError 500 ''Internal server error''),
      [Call_ReservoirRepo_FindByID ''reservoir-1'', Call_FarmRepo_FindByID ''farm-1'',
       Call_Reservoir_AddNewNote reservoir1 ''check the pump'',
       Call_ChangeReservoirInformation farm1
         (Reservoir_AddNewNote exampleNotes reservoir1 ''check the pump''),
       Call_ReservoirRepo_Save (Reservoir_AddNewNote exampleNotes reservoir1 ''check the pump'')])
   \<and> ErrorResponse (HTTPError 500 ''Internal server error'')
       \<noteq> ErrorResponse (OtherError ''disk full'')"
proof -
  have "ReservoirRepo_Save (exampleServer (Some (OtherError ''disk full''))) x
     = Some (OtherError ''disk full'')" for x
    by (simp add: exampleServer_def memoryServer_def)
  then show ?thesis
    by (simp add: example_add_reservoir_note_run Let_def internalServerError_def
        StatusInternalServerError_def)
qed

text \<open>
  C2, as the handlers have it: in every handler that saves, a save that ends in an error is
  the last call the handler makes (no retry, no further save), and the handler answers with
  an error; \<^verbatim>\<open>SaveFarm\<close>, \<^verbatim>\<open>SaveReservoir\<close>, \<^verbatim>\<open>SaveArea\<close> and
  \<^verbatim>\<open>SaveMaterial\<close> pass the error of the save itself to \<^verbatim>\<open>Error\<close>, while the
  four note handlers replace it by a new \<^verbatim>\<open>Internal server error\<close> with status 500.
\<close>

theorem save_errors_end_the_handler:
  "save_error_ends s (\<lambda>err. err) (SaveFarm s d c)
   \<and> save_error_ends s (\<lambda>err. err) (SaveReservoir s v a h c)
   \<and> save_error_ends s (\<lambda>err. err) (SaveArea s v a h c)
   \<and> save_error_ends s (\<lambda>err. err) (SaveMaterial s d h c)
   \<and> save_error_ends s (\<lambda>err. internalServerError) (SaveReservoirNotes s n h c)
   \<and> save_error_ends s (\<lambda>err. internalServerError) (RemoveReservoirNotes s n h c)
   \<and> save_error_ends s (\<lambda>err. internalServerError) (SaveAreaNotes s n h c)
   \<and> save_error_ends s (\<lambda>err. internalServerError) (RemoveAreaNotes s n h c)"
  by (simp add: SaveFarm_save_errors SaveReservoir_save_errors SaveArea_save_errors
      SaveMaterial_save_errors SaveReservoirNotes_save_errors RemoveReservoirNotes_save_errors
      SaveAreaNotes_save_errors RemoveAreaNotes_save_errors)

theorem save_errors_end_the_handler_witness:
  "save_outcome (exampleServer (Some (OtherError ''disk full''))) (Call_FarmRepo_Save farm1)
     = Some (OtherError ''disk full'')
   \<and> length (snd (SaveFarm (exampleServer (Some (OtherError ''disk full''))) exampleDomain
        farmRequest)) = 4
   \<and> snd (SaveFarm (exampleServer (Some (OtherError ''disk full''))) exampleDomain farmRequest) ! 3
     = Call_FarmRepo_Save farm1
   \<and> fst (SaveFarm (exampleServer (Some (OtherError ''disk full''))) exampleDomain farmRequest)
     = ErrorResponse (OtherError ''disk full'')
   \<and> save_outcome (exampleServer (Some (OtherError ''disk full'')))
        (Call_ReservoirRepo_Save (Reservoir_AddNewNote exampleNotes reservoir1 ''check the pump''))
     = Some (OtherError ''disk full'')
   \<and> length (snd (SaveReservoirNotes (exampleServer (Some (OtherError ''disk full'')))
        exampleNotes exampleHelpers (addNoteRequest ''reservoir-1'' ''check the pump''))) = 5
   \<and> snd (SaveReservoirNotes (exampleServer (Some (OtherError ''disk full'')))
        exampleNotes exampleHelpers (addNoteRequest ''reservoir-1'' ''check the pump'')) ! 4
     = Call_ReservoirRepo_Save (Reservoir_AddNewNote exampleNotes reservoir1 ''check the pump'')
   \<and> fst (SaveReservoirNotes (exampleServer (Some (OtherError ''disk full'')))
        exampleNotes exampleHelpers (addNoteRequest ''reservoir-1'' ''check the pump''))
     = ErrorResponse internalServerError"
proof -
  let ?s = "exampleServer (Some (OtherError ''disk full''))"
  let ?farm = "SaveFarm ?s exampleDomain farmRequest"
  let ?note = "SaveReservoirNotes ?s exampleNotes exampleHelpers
     (addNoteRequest ''reservoir-1'' ''check the pump'')"
  let ?r' = "Reservoir_AddNewNote exampleNotes reservoir1 ''check the pump''"
  have outcome: "save_outcome ?s (Call_FarmRepo_Save farm1) = Some (OtherError ''disk full'')"
    "save_outcome ?s (Call_ReservoirRepo_Save ?r') = Some (OtherError ''disk full'')"
    by (simp_all add: exampleServer_def memoryServer_def)
  have farm: "length (snd ?farm) = 4" "snd ?farm ! 3 = Call_FarmRepo_Save farm1"
    by (simp_all add: example_farm_run)
  have note_run: "length (snd ?note) = 5" "snd ?note ! 4 = Call_ReservoirRepo_Save ?r'"
    by (simp_all add: example_add_reservoir_note_run Let_def)
  from save_errors_end_the_handler [where s = ?s and d = exampleDomain and c = farmRequest]
  have ends: "save_error_ends ?s (\<lambda>err. err) ?farm"
    by blast
  from save_errors_end_the_handler [where s = ?s and n = exampleNotes and h = exampleHelpers
      and c = "addNoteRequest ''reservoir-1'' ''check the pump''"]
  have ends': "save_error_ends ?s (\<lambda>err. internalServerError) ?note"
    by blast
  have "3 < length (snd ?farm)" by (simp add: farm)
  with ends have "save_outcome ?s (snd ?farm ! 3) = Some (OtherError ''disk full'')
      \<longrightarrow> fst ?farm = ErrorResponse (OtherError ''disk full'')"
    unfolding save_error_ends_def by blast
  with farm outcome have one: "fst ?farm = ErrorResponse (OtherError ''disk full'')"
    by simp
  have "4 < length (snd ?note)" by (simp add: note_run)
  with ends' have "save_outcome ?s (snd ?note ! 4) = Some (OtherError ''disk full'')
      \<longrightarrow> fst ?note = ErrorResponse internalServerError"
    unfolding save_error_ends_def by blast
  with note_run outcome have two: "fst ?note = ErrorResponse internalServerError"
    by simp
  from outcome farm note_run one two show ?thesis by blast
qed

end
